theory Spec2Isabelle
  imports Complex_Main "HOL-Library.Char_ord" "HOL-Library.List_Lexorder"
begin

section \<open>Python text: characters and string methods\<close>

text \<open>
  A Python \<open>str\<close> is modelled as a \<open>string\<close>, one \<open>char\<close> per code point; the model
  covers the code points below 256 (Latin-1). The character classes below are the ones
  Python uses for \<open>str\<close> patterns and methods on that range: \<open>\d\<close> is the decimal
  digits, \<open>\s\<close> and \<open>str.strip()\<close> use \<open>str.isspace\<close>, \<open>\w\<close> is
  \<open>str.isalnum\<close> or the underscore.
\<close>

definition is_digit :: "char \<Rightarrow> bool" where
  "is_digit c = (CHR ''0'' \<le> c \<and> c \<le> CHR ''9'')"

definition is_space :: "char \<Rightarrow> bool" where
  "is_space c = ((CHR 0x09 \<le> c \<and> c \<le> CHR 0x0D) \<or> (CHR 0x1C \<le> c \<and> c \<le> CHR 0x20)
      \<or> c = CHR 0x85 \<or> c = CHR 0xA0)"

definition is_upper :: "char \<Rightarrow> bool" where
  "is_upper c = ((CHR ''A'' \<le> c \<and> c \<le> CHR ''Z'') \<or> (CHR 0xC0 \<le> c \<and> c \<le> CHR 0xD6)
      \<or> (CHR 0xD8 \<le> c \<and> c \<le> CHR 0xDE))"

definition is_alpha :: "char \<Rightarrow> bool" where
  "is_alpha c = ((CHR ''A'' \<le> c \<and> c \<le> CHR ''Z'') \<or> (CHR ''a'' \<le> c \<and> c \<le> CHR ''z'')
      \<or> c = CHR 0xAA \<or> c = CHR 0xB5 \<or> c = CHR 0xBA
      \<or> (CHR 0xC0 \<le> c \<and> c \<le> CHR 0xD6) \<or> (CHR 0xD8 \<le> c \<and> c \<le> CHR 0xF6)
      \<or> CHR 0xF8 \<le> c)"

definition is_word :: "char \<Rightarrow> bool" where
  "is_word c = (is_alpha c \<or> is_digit c \<or> c = CHR ''_'' \<or> c = CHR 0xB2 \<or> c = CHR 0xB3
      \<or> c = CHR 0xB9 \<or> (CHR 0xBC \<le> c \<and> c \<le> CHR 0xBE))"

text \<open>\<open>str.isdigit\<close> also accepts the superscript digits, which \<open>int()\<close> rejects.\<close>

definition is_pydigit :: "char \<Rightarrow> bool" where
  "is_pydigit c = (is_digit c \<or> c = CHR 0xB2 \<or> c = CHR 0xB3 \<or> c = CHR 0xB9)"

definition newline :: char where
  "newline = CHR 0x0A"

definition lower_char :: "char \<Rightarrow> char" where
  "lower_char c = (if is_upper c then char_of (of_char c + (32::nat)) else c)"

text \<open>
  \<open>str.upper\<close>: the three Latin-1 letters whose upper case lies outside Latin-1
  (sharp s, micro sign, y with diaeresis) are left as they are; they are word characters
  before and after, and no keyword of the source contains them.
\<close>

definition upper_char :: "char \<Rightarrow> char" where
  "upper_char c =
     (if (CHR ''a'' \<le> c \<and> c \<le> CHR ''z'') \<or> (CHR 0xE0 \<le> c \<and> c \<le> CHR 0xF6)
         \<or> (CHR 0xF8 \<le> c \<and> c \<le> CHR 0xFE)
      then char_of (of_char c - (32::nat)) else c)"

definition py_lower :: "string \<Rightarrow> string" where
  "py_lower s = map lower_char s"

definition py_upper :: "string \<Rightarrow> string" where
  "py_upper s = map upper_char s"

definition py_strip :: "string \<Rightarrow> string" where
  "py_strip s = rev (dropWhile is_space (rev (dropWhile is_space s)))"

text \<open>\<open>s.split('\n')\<close>: the pieces between newlines; never empty.\<close>

fun split_nl :: "string \<Rightarrow> string list" where
  "split_nl [] = [[]]"
| "split_nl (c # cs) =
     (if c = newline then [] # split_nl cs
      else (case split_nl cs of [] \<Rightarrow> [[c]] | l # ls \<Rightarrow> (c # l) # ls))"

definition py_isdigit :: "string \<Rightarrow> bool" where
  "py_isdigit s = (s \<noteq> [] \<and> list_all is_pydigit s)"

definition py_isalpha :: "string \<Rightarrow> bool" where
  "py_isalpha s = (s \<noteq> [] \<and> list_all is_alpha s)"

text \<open>\<open>s.replace(c, '')\<close> for a single character \<open>c\<close>.\<close>

definition remove_char :: "char \<Rightarrow> string \<Rightarrow> string" where
  "remove_char c s = filter (\<lambda>x. x \<noteq> c) s"

text \<open>\<open>enumerate(xs, n)\<close>.\<close>

fun enumerate_from :: "nat \<Rightarrow> 'a list \<Rightarrow> (nat \<times> 'a) list" where
  "enumerate_from n [] = []"
| "enumerate_from n (x # xs) = (n, x) # enumerate_from (Suc n) xs"

section \<open>Python regular expressions\<close>

text \<open>
  The patterns of the source are written in the following abstract syntax and run by a
  backtracking matcher with Python's priorities: the left alternative first, greedy
  repetition longest first, lazy repetition shortest first. Repetition is over a character
  class, which is all the source's patterns repeat; a bounded repetition \<open>r{n}\<close>,
  \<open>r{n,m}\<close> is unfolded by \<open>rep\<close> and \<open>atmost\<close>. Capture groups are named
  (a numbered group \<open>n\<close> has the name of its number).
\<close>

datatype citem = CChar char | CRange char char | CDigit | CWord | CSpace

fun citem_mem :: "citem \<Rightarrow> char \<Rightarrow> bool" where
  "citem_mem (CChar a) c = (c = a)"
| "citem_mem (CRange a b) c = (a \<le> c \<and> c \<le> b)"
| "citem_mem CDigit c = is_digit c"
| "citem_mem CWord c = is_word c"
| "citem_mem CSpace c = is_space c"

datatype cset = In "citem list" | NotIn "citem list" | Dot

fun cset_mem :: "cset \<Rightarrow> char \<Rightarrow> bool" where
  "cset_mem (In is) c = list_ex (\<lambda>i. citem_mem i c) is"
| "cset_mem (NotIn is) c = (\<not> list_ex (\<lambda>i. citem_mem i c) is)"
| "cset_mem Dot c = (c \<noteq> newline)"

datatype regex = Ch cset | Eps | Seq regex regex | Alt regex regex | Star bool cset
  | Grp string regex | Bol | Eol | WordB

type_synonym caps = "(string \<times> string) list"

fun word_before :: "char option \<Rightarrow> bool" where
  "word_before None = False"
| "word_before (Some c) = is_word c"

fun word_after :: "string \<Rightarrow> bool" where
  "word_after [] = False"
| "word_after (c # cs) = is_word c"

text \<open>
  \<open>rx_match r k c p s\<close> matches \<open>r\<close> at the head of \<open>s\<close>, where \<open>p\<close> is the character
  before \<open>s\<close> (\<open>None\<close> at the start of the subject) and \<open>c\<close> the groups captured so
  far, and hands what is left to the continuation \<open>k\<close>; a \<open>None\<close> from \<open>k\<close> makes the
  matcher backtrack. \<open>Star True\<close> is greedy, \<open>Star False\<close> lazy.
\<close>

function rx_match :: "regex \<Rightarrow> (caps \<Rightarrow> char option \<Rightarrow> string \<Rightarrow> 'a option) \<Rightarrow> caps \<Rightarrow>
    char option \<Rightarrow> string \<Rightarrow> 'a option" where
  "rx_match (Ch cs) k c p [] = None"
| "rx_match (Ch cs) k c p (x # xs) = (if cset_mem cs x then k c (Some x) xs else None)"
| "rx_match Eps k c p s = k c p s"
| "rx_match (Seq a b) k c p s = rx_match a (\<lambda>c' p' s'. rx_match b k c' p' s') c p s"
| "rx_match (Alt a b) k c p s =
     (case rx_match a k c p s of Some r \<Rightarrow> Some r | None \<Rightarrow> rx_match b k c p s)"
| "rx_match (Star g cs) k c p [] = k c p []"
| "rx_match (Star g cs) k c p (x # xs) =
     (if g then
        (if cset_mem cs x then
           (case rx_match (Star g cs) k c (Some x) xs of
              Some r \<Rightarrow> Some r
            | None \<Rightarrow> k c p (x # xs))
         else k c p (x # xs))
      else
        (case k c p (x # xs) of
           Some r \<Rightarrow> Some r
         | None \<Rightarrow> if cset_mem cs x then rx_match (Star g cs) k c (Some x) xs else None))"
| "rx_match (Grp n r) k c p s =
     rx_match r (\<lambda>c' p' s'. k ((n, take (length s - length s') s) # c') p' s') c p s"
| "rx_match Bol k c p s = (if p = None then k c p s else None)"
| "rx_match Eol k c p s = (if s = [] \<or> s = [newline] then k c p s else None)"
| "rx_match WordB k c p s = (if word_before p \<noteq> word_after s then k c p s else None)"
  by pat_completeness auto
termination
  by (relation "inv_image (measure size <*lex*> measure length) (\<lambda>(r, k, c, p, s). (r, s))") auto

text \<open>
  A successful match: the groups, the last character before the rest, and the rest of
  the subject.
\<close>

type_synonym mres = "caps \<times> char option \<times> string"

definition match_here :: "regex \<Rightarrow> char option \<Rightarrow> string \<Rightarrow> mres option" where
  "match_here r p s = rx_match r (\<lambda>c p' s'. Some (c, p', s')) [] p s"

text \<open>\<open>re.match(r, s)\<close>: a match at the start of the subject only.\<close>

definition re_match :: "regex \<Rightarrow> string \<Rightarrow> mres option" where
  "re_match r s = match_here r None s"

text \<open>
  \<open>re.search(r, s)\<close>: the leftmost match; the result also gives the text skipped before
  it.
\<close>

fun search_from :: "regex \<Rightarrow> char option \<Rightarrow> string \<Rightarrow> (string \<times> mres) option" where
  "search_from r p [] = (case match_here r p [] of Some res \<Rightarrow> Some ([], res) | None \<Rightarrow> None)"
| "search_from r p (x # xs) =
     (case match_here r p (x # xs) of
        Some res \<Rightarrow> Some ([], res)
      | None \<Rightarrow> (case search_from r (Some x) xs of
                   None \<Rightarrow> None
                 | Some (pre, res) \<Rightarrow> Some (x # pre, res)))"

definition re_search :: "regex \<Rightarrow> string \<Rightarrow> (string \<times> mres) option" where
  "re_search r s = search_from r None s"

definition re_found :: "regex \<Rightarrow> string \<Rightarrow> bool" where
  "re_found r s = (re_search r s \<noteq> None)"

text \<open>\<open>match.group(n)\<close> for a group that took part in the match.\<close>

definition group :: "caps \<Rightarrow> string \<Rightarrow> string option" where
  "group c n = map_of c n"

text \<open>
  \<open>re.sub(r, repl, s)\<close> for a constant replacement: the non-overlapping matches from the
  left. None of the source's patterns matches the empty string; an empty match is
  replaced and the scan moves on by one character.
\<close>

function sub_from :: "regex \<Rightarrow> string \<Rightarrow> char option \<Rightarrow> string \<Rightarrow> string" where
  "sub_from r repl p [] = (case match_here r p [] of Some res \<Rightarrow> repl | None \<Rightarrow> [])"
| "sub_from r repl p (x # xs) =
     (case match_here r p (x # xs) of
        Some (c, p', s') \<Rightarrow>
          if length s' < length (x # xs) then repl @ sub_from r repl p' s'
          else repl @ x # sub_from r repl (Some x) xs
      | None \<Rightarrow> x # sub_from r repl (Some x) xs)"
  by pat_completeness auto
termination
  by (relation "measure (\<lambda>(r, repl, p, s). length s)") auto

definition re_sub :: "regex \<Rightarrow> string \<Rightarrow> string \<Rightarrow> string" where
  "re_sub r repl s = sub_from r repl None s"

subsection \<open>Building patterns\<close>

fun seqs :: "regex list \<Rightarrow> regex" where
  "seqs [] = Eps"
| "seqs [r] = r"
| "seqs (r # rs) = Seq r (seqs rs)"

fun alts :: "regex list \<Rightarrow> regex" where
  "alts [] = Eps"
| "alts [r] = r"
| "alts (r # rs) = Alt r (alts rs)"

definition lit :: "char \<Rightarrow> regex" where
  "lit c = Ch (In [CChar c])"

definition lits :: "string \<Rightarrow> regex" where
  "lits s = seqs (map lit s)"

definition opt :: "regex \<Rightarrow> regex" where
  "opt r = Alt r Eps"

definition many1 :: "cset \<Rightarrow> regex" where
  "many1 cs = Seq (Ch cs) (Star True cs)"

definition many1_lazy :: "cset \<Rightarrow> regex" where
  "many1_lazy cs = Seq (Ch cs) (Star False cs)"

text \<open>\<open>r{n}\<close> and \<open>r{0,n}\<close>.\<close>

fun rep :: "nat \<Rightarrow> regex \<Rightarrow> regex" where
  "rep 0 r = Eps"
| "rep (Suc 0) r = r"
| "rep (Suc n) r = Seq r (rep n r)"

fun atmost :: "nat \<Rightarrow> regex \<Rightarrow> regex" where
  "atmost 0 r = Eps"
| "atmost (Suc n) r = opt (Seq r (atmost n r))"

definition digit :: cset where
  "digit = In [CDigit]"

definition wordc :: cset where
  "wordc = In [CWord]"

definition space :: cset where
  "space = In [CSpace]"

definition nonspace :: cset where
  "nonspace = NotIn [CSpace]"

definition hexlow :: cset where
  "hexlow = In [CRange (CHR ''0'') (CHR ''9''), CRange (CHR ''a'') (CHR ''f'')]"

definition dquote :: char where
  "dquote = CHR 0x22"

definition squote :: char where
  "squote = CHR 0x27"

definition backslash :: char where
  "backslash = CHR 0x5C"

section \<open>The service extractor (\<open>file_processor.py\<close>)\<close>

text \<open>\<open>FileProcessor._get_excluded_service_names\<close>.\<close>

definition get_excluded_service_names :: "string list" where
  "get_excluded_service_names =
     [''info'', ''error'', ''warn'', ''warning'', ''debug'', ''trace'', ''fatal'', ''critical'',
      ''log'', ''logs'', ''message'', ''msg'', ''text'', ''data'', ''main'', ''root'', ''system'']"

definition excluded :: "string \<Rightarrow> bool" where
  "excluded s = (py_lower s \<in> set get_excluded_service_names)"

text \<open>
  The seven patterns of \<open>_extract_service\<close>, in the order of the source:
  \<^verbatim>\<open>(\w+)\[\d+\]:\s\<close>, \<^verbatim>\<open>\[([^\]]+)\]\<close>, \<^verbatim>\<open>(\w+):\s\<close>, \<^verbatim>\<open>\b(\w+)\s*-\s\<close>,
  \<^verbatim>\<open>(\w+)\.\w+\<close>, \<^verbatim>\<open>(\w+):$\<close>, \<^verbatim>\<open>^(\w+)\s\<close>.
\<close>

definition service_name_patterns :: "regex list" where
  "service_name_patterns =
     [seqs [Grp ''1'' (many1 wordc), lit (CHR ''[''), many1 digit, lit (CHR '']''), lit (CHR '':''),
            Ch space],
      seqs [lit (CHR ''[''), Grp ''1'' (many1 (NotIn [CChar (CHR '']'')])), lit (CHR '']'')],
      seqs [Grp ''1'' (many1 wordc), lit (CHR '':''), Ch space],
      seqs [WordB, Grp ''1'' (many1 wordc), Star True space, lit (CHR ''-''), Ch space],
      seqs [Grp ''1'' (many1 wordc), lit (CHR ''.''), many1 wordc],
      seqs [Grp ''1'' (many1 wordc), lit (CHR '':''), Eol],
      seqs [Bol, Grp ''1'' (many1 wordc), Ch space]]"

text \<open>
  The loop over the patterns: the first pattern that matches with a group outside the
  stoplist returns it; a match inside the stoplist moves on to the next pattern.
\<close>

fun first_service :: "regex list \<Rightarrow> string \<Rightarrow> string option" where
  "first_service [] service = None"
| "first_service (r # rs) service =
     (case re_search r service of
        None \<Rightarrow> first_service rs service
      | Some (pre, c, p, rest) \<Rightarrow>
          (case group c ''1'' of
             None \<Rightarrow> first_service rs service
           | Some extracted \<Rightarrow>
               if \<not> excluded extracted then Some extracted else first_service rs service))"

text \<open>\<^verbatim>\<open>re.sub(r'[^\w.-]', '', service)\<close>.\<close>

definition clean_service :: "string \<Rightarrow> string" where
  "clean_service service =
     re_sub (Ch (NotIn [CWord, CChar (CHR ''.''), CChar (CHR ''-'')])) [] service"

definition extract_service :: "string option \<Rightarrow> string option" where
  "extract_service service_input =
     (case service_input of
        None \<Rightarrow> None
      | Some inp \<Rightarrow>
          if inp = [] then None
          else
            let service = py_strip inp in
            if \<not> list_ex (\<lambda>ch. ch \<in> set service) ''[]:- '' then
              (if \<not> excluded service then Some service else None)
            else
              (case first_service service_name_patterns service of
                 Some extracted \<Rightarrow> Some extracted
               | None \<Rightarrow>
                   let cleaned = clean_service service in
                   if cleaned \<noteq> [] \<and> \<not> excluded cleaned then Some cleaned else None))"

section \<open>Exceptions, dates and times\<close>

text \<open>
  The exceptions that the modelled code can meet. A function that can raise returns
  \<open>pyerr + 'a\<close>, with \<open>Inl\<close> for the exception.
\<close>

datatype pyerr = ValueError | TypeError | OverflowError | OSError | ValidationError
  | LogParsingError string

text \<open>
  \<open>datetime.datetime\<close>: the calendar fields and, for an aware value, the UTC offset (in
  microseconds). \<open>strptime\<close> yields an aware value only through \<open>%z\<close>.
\<close>

record datetime =
  dt_year :: int
  dt_month :: int
  dt_day :: int
  dt_hour :: int
  dt_minute :: int
  dt_second :: int
  dt_micro :: int
  dt_offset :: "int option"

definition is_leap :: "int \<Rightarrow> bool" where
  "is_leap y = (y mod 4 = 0 \<and> (y mod 100 \<noteq> 0 \<or> y mod 400 = 0))"

definition days_in_month :: "int \<Rightarrow> int \<Rightarrow> int" where
  "days_in_month y m =
     (if m = 2 then (if is_leap y then 29 else 28)
      else if m = 4 \<or> m = 6 \<or> m = 9 \<or> m = 11 then 30 else 31)"

text \<open>What the \<open>datetime\<close> constructor accepts (it raises \<open>ValueError\<close> otherwise).\<close>

definition valid_datetime :: "datetime \<Rightarrow> bool" where
  "valid_datetime t =
     (1 \<le> dt_year t \<and> dt_year t \<le> 9999 \<and> 1 \<le> dt_month t \<and> dt_month t \<le> 12
      \<and> 1 \<le> dt_day t \<and> dt_day t \<le> days_in_month (dt_year t) (dt_month t)
      \<and> 0 \<le> dt_hour t \<and> dt_hour t \<le> 23 \<and> 0 \<le> dt_minute t \<and> dt_minute t \<le> 59
      \<and> 0 \<le> dt_second t \<and> dt_second t \<le> 59 \<and> 0 \<le> dt_micro t \<and> dt_micro t \<le> 999999
      \<and> (case dt_offset t of None \<Rightarrow> True
          | Some off \<Rightarrow> - 86400000000 < off \<and> off < 86400000000))"

text \<open>Days from 1970-01-01 to the given civil date (proleptic Gregorian calendar).\<close>

definition days_from_civil :: "int \<Rightarrow> int \<Rightarrow> int \<Rightarrow> int" where
  "days_from_civil y m d =
     (let y' = (if m \<le> 2 then y - 1 else y);
          era = y' div 400;
          yoe = y' - era * 400;
          mp = (if m > 2 then m - 3 else m + 9);
          doy = (153 * mp + 2) div 5 + d - 1;
          doe = yoe * 365 + yoe div 4 - yoe div 100 + doy
      in era * 146097 + doe - 719468)"

text \<open>The civil date (year, month, day) of a day number; inverse of \<open>days_from_civil\<close>.\<close>

definition civil_from_days :: "int \<Rightarrow> int \<times> int \<times> int" where
  "civil_from_days z0 =
     (let z = z0 + 719468;
          era = z div 146097;
          doe = z - era * 146097;
          yoe = (doe - doe div 1460 + doe div 36524 - doe div 146096) div 365;
          y = yoe + era * 400;
          doy = doe - (365 * yoe + yoe div 4 - yoe div 100);
          mp = (5 * doy + 2) div 153;
          d = doy - (153 * mp + 2) div 5 + 1;
          m = (if mp < 10 then mp + 3 else mp - 9)
      in (if m \<le> 2 then y + 1 else y, m, d))"

text \<open>
  The position of a datetime on the time line, in microseconds since 1970-01-01T00:00:00:
  wall-clock for a naive value, UTC for an aware one. Two naive values, and two aware
  values, are ordered and subtracted by it.
\<close>

definition wall_micros :: "datetime \<Rightarrow> int" where
  "wall_micros t =
     (((days_from_civil (dt_year t) (dt_month t) (dt_day t) * 24 + dt_hour t) * 60
        + dt_minute t) * 60 + dt_second t) * 1000000 + dt_micro t"

definition instant :: "datetime \<Rightarrow> int" where
  "instant t = (case dt_offset t of None \<Rightarrow> wall_micros t | Some off \<Rightarrow> wall_micros t - off)"

definition aware :: "datetime \<Rightarrow> bool" where
  "aware t = (dt_offset t \<noteq> None)"

text \<open>
  Python refuses to order or subtract a naive and an aware datetime (\<open>TypeError\<close>);
  \<open>==\<close> between them is \<open>False\<close>. A comparison sort, \<open>min\<close> and \<open>max\<close> over values
  of both kinds must compare two of different kinds, so they raise exactly when the
  values are of both kinds. Two naive values are equal when their fields are.
\<close>

definition mixed :: "datetime list \<Rightarrow> bool" where
  "mixed ts = (list_ex aware ts \<and> list_ex (\<lambda>t. \<not> aware t) ts)"

definition dt_eq :: "datetime \<Rightarrow> datetime \<Rightarrow> bool" where
  "dt_eq a b =
     (if aware a \<and> aware b then instant a = instant b
      else if \<not> aware a \<and> \<not> aware b then a = b
      else False)"

text \<open>\<open>min(ts)\<close> and \<open>max(ts)\<close>: \<open>ValueError\<close> on an empty sequence; the first of equals.\<close>

fun min_by :: "('a \<Rightarrow> int) \<Rightarrow> 'a \<Rightarrow> 'a list \<Rightarrow> 'a" where
  "min_by f b [] = b"
| "min_by f b (x # xs) = min_by f (if f x < f b then x else b) xs"

fun max_by :: "('a \<Rightarrow> int) \<Rightarrow> 'a \<Rightarrow> 'a list \<Rightarrow> 'a" where
  "max_by f b [] = b"
| "max_by f b (x # xs) = max_by f (if f b < f x then x else b) xs"

definition dt_min :: "datetime list \<Rightarrow> pyerr + datetime" where
  "dt_min ts =
     (case ts of [] \<Rightarrow> Inl ValueError
      | t # rest \<Rightarrow> if mixed ts then Inl TypeError else Inr (min_by instant t rest))"

definition dt_max :: "datetime list \<Rightarrow> pyerr + datetime" where
  "dt_max ts =
     (case ts of [] \<Rightarrow> Inl ValueError
      | t # rest \<Rightarrow> if mixed ts then Inl TypeError else Inr (max_by instant t rest))"

text \<open>\<open>(a - b).total_seconds()\<close>, as an exact rational.\<close>

definition diff_seconds :: "datetime \<Rightarrow> datetime \<Rightarrow> rat" where
  "diff_seconds a b = of_int (instant a - instant b) / 1000000"

text \<open>\<open>datetime.isoformat()\<close>.\<close>

definition digit_char :: "int \<Rightarrow> char" where
  "digit_char n = char_of (48 + n mod 10)"

fun pad_num :: "nat \<Rightarrow> int \<Rightarrow> string" where
  "pad_num 0 n = []"
| "pad_num (Suc w) n = pad_num w (n div 10) @ [digit_char n]"

definition iso_offset :: "int \<Rightarrow> string" where
  "iso_offset off =
     (let a = abs off;
          secs = a div 1000000;
          us = a mod 1000000
      in (if off < 0 then ''-'' else ''+'')
         @ pad_num 2 (secs div 3600) @ '':'' @ pad_num 2 (secs div 60 mod 60)
         @ (if secs mod 60 \<noteq> 0 \<or> us \<noteq> 0 then '':'' @ pad_num 2 (secs mod 60) else [])
         @ (if us \<noteq> 0 then ''.'' @ pad_num 6 us else []))"

definition isoformat :: "datetime \<Rightarrow> string" where
  "isoformat t =
     pad_num 4 (dt_year t) @ ''-'' @ pad_num 2 (dt_month t) @ ''-'' @ pad_num 2 (dt_day t)
     @ ''T'' @ pad_num 2 (dt_hour t) @ '':'' @ pad_num 2 (dt_minute t) @ '':''
     @ pad_num 2 (dt_second t)
     @ (if dt_micro t \<noteq> 0 then ''.'' @ pad_num 6 (dt_micro t) else [])
     @ (case dt_offset t of None \<Rightarrow> [] | Some off \<Rightarrow> iso_offset off)"

section \<open>Library functions taken as parameters\<close>

text \<open>
  A value decoded by \<open>json.loads\<close>.
\<close>

datatype json = JNull | JBool bool | JNum rat | JStr string | JArr "json list"
  | JObj "(string \<times> json) list"

text \<open>
  The library functions whose behaviour the model does not fix are fields of a record that
  every function using them takes as its first argument:
  \<^item> \<open>json_loads\<close>: \<open>json.loads\<close>, with \<open>Inl\<close> the message of a \<open>JSONDecodeError\<close>;
  \<^item> \<open>str_of\<close>: \<open>str(v)\<close> for a decoded value that is not a string;
  \<^item> \<open>pydantic_str\<close>: the validation of a value for a \<open>str\<close> field of \<open>LogEntry\<close>
    (\<open>None\<close> is a \<open>ValidationError\<close>);
  \<^item> \<open>exc_str\<close>: \<open>str(e)\<close> for a caught exception;
  \<^item> \<open>fromtimestamp\<close>: \<open>datetime.fromtimestamp\<close> (local time), which raises
    \<open>ValueError\<close>, \<open>OverflowError\<close> or \<open>OSError\<close> outside the platform's range; a
    float is an exact rational here, rounding is not modelled;
  \<^item> \<open>csv_rows\<close>: what \<open>csv.Sniffer().sniff\<close> on the sample and \<open>csv.reader\<close> on the
    first five lines give in \<open>_score_csv_format\<close>: the rows, or \<open>None\<close> when either
    raises;
  \<^item> \<open>csv_dict_rows\<close>: the rows that \<open>csv.DictReader\<close> yields in \<open>_parse_csv_logs\<close>
    (see there).
\<close>

record pylib =
  json_loads :: "string \<Rightarrow> string + json"
  str_of :: "json \<Rightarrow> string"
  pydantic_str :: "json \<Rightarrow> string option"
  exc_str :: "pyerr \<Rightarrow> string"
  fromtimestamp :: "rat \<Rightarrow> pyerr + datetime"
  csv_rows :: "string list \<Rightarrow> string list list option"
  csv_dict_rows :: "string \<Rightarrow> ((string \<times> string option) list \<times> string) list option"

text \<open>Truth value of a decoded value, as \<open>not\<close>, \<open>or\<close> and \<open>if\<close> test it.\<close>

fun truthy :: "json \<Rightarrow> bool" where
  "truthy JNull = False"
| "truthy (JBool b) = b"
| "truthy (JNum n) = (n \<noteq> 0)"
| "truthy (JStr s) = (s \<noteq> [])"
| "truthy (JArr xs) = (xs \<noteq> [])"
| "truthy (JObj kvs) = (kvs \<noteq> [])"

definition py_str :: "pylib \<Rightarrow> json \<Rightarrow> string" where
  "py_str L v = (case v of JStr s \<Rightarrow> s | _ \<Rightarrow> str_of L v)"

text \<open>\<open>int(s)\<close> for a text: the decimal digits only; \<open>None\<close> is \<open>ValueError\<close>.\<close>

definition digit_val :: "char \<Rightarrow> int" where
  "digit_val c = of_char c - 48"

definition digits_value :: "string \<Rightarrow> int" where
  "digits_value s = foldl (\<lambda>n c. 10 * n + digit_val c) 0 s"

definition py_int :: "string \<Rightarrow> int option" where
  "py_int s =
     (let t = py_strip s
      in if t \<noteq> [] \<and> list_all is_digit t then Some (digits_value t) else None)"

text \<open>
  \<open>float(s)\<close> for a text, after Python's grammar: an optional sign, then \<open>inf\<close>,
  \<open>infinity\<close> or \<open>nan\<close> in any case, or digits (single underscores allowed between
  digits) with an optional point and an optional exponent. \<open>None\<close> is \<open>ValueError\<close>.
  A value beyond the range of a double is infinite.
\<close>

datatype pyfloat = Finite rat | NonFinite

fun dp_tail :: "string \<Rightarrow> string \<times> string" where
  "dp_tail [] = ([], [])"
| "dp_tail [c] = (if is_digit c then ([c], []) else ([], [c]))"
| "dp_tail (c # e # cs) =
     (if is_digit c then (case dp_tail (e # cs) of (ds, r) \<Rightarrow> (c # ds, r))
      else if c = CHR ''_'' \<and> is_digit e then (case dp_tail cs of (ds, r) \<Rightarrow> (e # ds, r))
      else ([], c # e # cs))"

definition digitpart :: "string \<Rightarrow> (string \<times> string) option" where
  "digitpart s =
     (case s of [] \<Rightarrow> None
      | c # cs \<Rightarrow> if is_digit c then (case dp_tail cs of (ds, r) \<Rightarrow> Some (c # ds, r)) else None)"

definition decimal_value :: "string \<Rightarrow> string \<Rightarrow> rat" where
  "decimal_value ip fp = of_int (digits_value (ip @ fp)) / 10 ^ length fp"

definition parse_number :: "string \<Rightarrow> (rat \<times> string) option" where
  "parse_number s =
     (case digitpart s of
        Some (ip, r) \<Rightarrow>
          (case r of
             [] \<Rightarrow> Some (decimal_value ip [], [])
           | c # r' \<Rightarrow>
               if c = CHR ''.'' then
                 (case digitpart r' of
                    Some (fp, r'') \<Rightarrow> Some (decimal_value ip fp, r'')
                  | None \<Rightarrow> Some (decimal_value ip [], r'))
               else Some (decimal_value ip [], r))
      | None \<Rightarrow>
          (case s of
             [] \<Rightarrow> None
           | c # r' \<Rightarrow>
               if c = CHR ''.'' then
                 (case digitpart r' of
                    Some (fp, r'') \<Rightarrow> Some (decimal_value [] fp, r'')
                  | None \<Rightarrow> None)
               else None))"

definition parse_exponent :: "string \<Rightarrow> int option" where
  "parse_exponent s =
     (case s of
        [] \<Rightarrow> Some 0
      | c # r \<Rightarrow>
          if c = CHR ''e'' \<or> c = CHR ''E'' then
            (let neg = (take 1 r = ''-'');
                 r' = (if take 1 r = ''-'' \<or> take 1 r = ''+'' then drop 1 r else r)
             in case digitpart r' of
                  Some (ds, []) \<Rightarrow> Some (if neg then - digits_value ds else digits_value ds)
                | _ \<Rightarrow> None)
          else None)"

definition scale10 :: "rat \<Rightarrow> int \<Rightarrow> rat" where
  "scale10 v e = (if e \<ge> 0 then v * 10 ^ nat e else v / 10 ^ nat (- e))"

definition py_float :: "string \<Rightarrow> pyfloat option" where
  "py_float s =
     (let t = py_strip s;
          u = (if take 1 t = ''-'' \<or> take 1 t = ''+'' then drop 1 t else t)
      in if py_lower u \<in> {''inf'', ''infinity'', ''nan''} then Some NonFinite
         else
           (case parse_number u of
              None \<Rightarrow> None
            | Some (v, r) \<Rightarrow>
                (case parse_exponent r of
                   None \<Rightarrow> None
                 | Some e \<Rightarrow>
                     let w = scale10 v e
                     in if w \<ge> 2 ^ 1024 then Some NonFinite
                        else Some (Finite (if take 1 t = ''-'' then - w else w)))))"

section \<open>\<open>datetime.strptime\<close>\<close>

text \<open>
  \<open>strptime\<close> turns the format into a regular expression, matches it at the start of the
  text ignoring case, refuses text that is left over, and builds the datetime from the
  groups. The directives the source uses are modelled: \<open>%Y %m %d %H %M %S %f %z %b\<close>.
\<close>

datatype fmt_item = FLit char | FSpace | FDir char

fun parse_format :: "string \<Rightarrow> fmt_item list" where
  "parse_format [] = []"
| "parse_format [c] = (if is_space c then [FSpace] else [FLit c])"
| "parse_format (c # e # cs) =
     (if c = CHR ''%'' then FDir e # parse_format cs
      else if is_space c then
        (if is_space e then parse_format (e # cs) else FSpace # parse_format (e # cs))
      else FLit c # parse_format (e # cs))"

definition rng :: "char \<Rightarrow> char \<Rightarrow> regex" where
  "rng a b = Ch (In [CRange a b])"

text \<open>A literal, ignoring case.\<close>

definition ilit :: "char \<Rightarrow> regex" where
  "ilit c = Ch (In [CChar (lower_char c), CChar (upper_char c)])"

definition month_abbrs :: "string list" where
  "month_abbrs = [''jan'', ''feb'', ''mar'', ''apr'', ''may'', ''jun'', ''jul'', ''aug'', ''sep'',
     ''oct'', ''nov'', ''dec'']"

definition directive_regex :: "char \<Rightarrow> regex" where
  "directive_regex e =
     (if e = CHR ''Y'' then Grp ''Y'' (rep 4 (Ch digit))
      else if e = CHR ''m'' then
        Grp ''m'' (alts [Seq (lit (CHR ''1'')) (rng (CHR ''0'') (CHR ''2'')),
                         Seq (lit (CHR ''0'')) (rng (CHR ''1'') (CHR ''9'')),
                         rng (CHR ''1'') (CHR ''9'')])
      else if e = CHR ''d'' then
        Grp ''d'' (alts [Seq (lit (CHR ''3'')) (rng (CHR ''0'') (CHR ''1'')),
                         Seq (rng (CHR ''1'') (CHR ''2'')) (Ch digit),
                         Seq (lit (CHR ''0'')) (rng (CHR ''1'') (CHR ''9'')),
                         rng (CHR ''1'') (CHR ''9''),
                         Seq (lit (CHR '' '')) (rng (CHR ''1'') (CHR ''9''))])
      else if e = CHR ''H'' then
        Grp ''H'' (alts [Seq (lit (CHR ''2'')) (rng (CHR ''0'') (CHR ''3'')),
                         Seq (rng (CHR ''0'') (CHR ''1'')) (Ch digit),
                         Ch digit])
      else if e = CHR ''M'' then
        Grp ''M'' (alts [Seq (rng (CHR ''0'') (CHR ''5'')) (Ch digit), Ch digit])
      else if e = CHR ''S'' then
        Grp ''S'' (alts [Seq (lit (CHR ''6'')) (rng (CHR ''0'') (CHR ''1'')),
                         Seq (rng (CHR ''0'') (CHR ''5'')) (Ch digit),
                         Ch digit])
      else if e = CHR ''f'' then
        Grp ''f'' (Seq (rng (CHR ''0'') (CHR ''9'')) (atmost 5 (rng (CHR ''0'') (CHR ''9''))))
      else if e = CHR ''z'' then
        Grp ''z''
          (Alt (seqs [Ch (In [CChar (CHR ''+''), CChar (CHR ''-'')]), Ch digit, Ch digit,
                      opt (lit (CHR '':'')), rng (CHR ''0'') (CHR ''5''), Ch digit,
                      opt (seqs [opt (lit (CHR '':'')), rng (CHR ''0'') (CHR ''5''), Ch digit,
                                 opt (seqs [lit (CHR ''.''), Ch digit, atmost 5 (Ch digit)])])])
               (lit (CHR ''Z'')))
      else if e = CHR ''b'' then
        Grp ''b'' (alts (map (\<lambda>w. seqs (map ilit w)) month_abbrs))
      else Ch (In []))"

fun item_regex :: "fmt_item \<Rightarrow> regex" where
  "item_regex (FLit c) = ilit c"
| "item_regex FSpace = many1 space"
| "item_regex (FDir e) = directive_regex e"

definition format_regex :: "string \<Rightarrow> regex" where
  "format_regex fmt = seqs (map item_regex (parse_format fmt))"

text \<open>The number of a group that matched, or a default.\<close>

definition group_num :: "caps \<Rightarrow> string \<Rightarrow> int \<Rightarrow> int" where
  "group_num c n dflt =
     (case group c n of None \<Rightarrow> dflt
      | Some t \<Rightarrow> digits_value (filter is_digit t))"

definition month_of_abbr :: "string \<Rightarrow> int" where
  "month_of_abbr w =
     (case find (\<lambda>(i, a). a = py_lower w) (enumerate_from 1 month_abbrs) of
        Some (i, a) \<Rightarrow> int i | None \<Rightarrow> 1)"

text \<open>\<open>%f\<close>: the digits padded on the right to six.\<close>

definition fraction_micros :: "string \<Rightarrow> int" where
  "fraction_micros t = digits_value (take 6 (t @ ''000000''))"

text \<open>
  The text of \<open>%z\<close> to a UTC offset in microseconds, as \<open>_strptime\<close> computes it;
  \<open>None\<close> is its \<open>ValueError\<close>.
\<close>

definition parse_z :: "string \<Rightarrow> int option" where
  "parse_z z0 =
     (if z0 = ''Z'' then Some 0
      else
        let z1 = (if drop 3 (take 4 z0) = '':'' then take 3 z0 @ drop 4 z0 else z0);
            bad = (drop 3 (take 4 z0) = '':'' \<and> length z1 > 5 \<and> drop 5 (take 6 z1) \<noteq> '':'');
            z = (if drop 3 (take 4 z0) = '':'' \<and> length z1 > 5 then take 5 z1 @ drop 6 z1 else z1);
            secs_text = drop 5 (take 7 z)
        in if bad then None
           else
             (case (if secs_text = [] then Some 0 else py_int secs_text) of
                None \<Rightarrow> None
              | Some seconds \<Rightarrow>
                  let hours = digits_value (drop 1 (take 3 z));
                      minutes = digits_value (drop 3 (take 5 z));
                      gmtoff = hours * 3600 + minutes * 60 + seconds;
                      fraction = fraction_micros (drop 8 z);
                      total = gmtoff * 1000000 + fraction
                  in Some (if take 1 z = ''-'' then - total else total)))"

definition build_datetime :: "caps \<Rightarrow> datetime option" where
  "build_datetime c =
     (case (case group c ''z'' of None \<Rightarrow> Some None | Some z \<Rightarrow> map_option Some (parse_z z)) of
        None \<Rightarrow> None
      | Some off \<Rightarrow>
          let t = \<lparr> dt_year = group_num c ''Y'' 1900,
                    dt_month = (case group c ''b'' of Some w \<Rightarrow> month_of_abbr w
                                | None \<Rightarrow> group_num c ''m'' 1),
                    dt_day = group_num c ''d'' 1,
                    dt_hour = group_num c ''H'' 0,
                    dt_minute = group_num c ''M'' 0,
                    dt_second = group_num c ''S'' 0,
                    dt_micro = (case group c ''f'' of None \<Rightarrow> 0 | Some f \<Rightarrow> fraction_micros f),
                    dt_offset = off \<rparr>
          in if valid_datetime t then Some t else None)"

text \<open>\<open>datetime.strptime(s, fmt)\<close>; \<open>None\<close> is \<open>ValueError\<close>.\<close>

definition strptime :: "string \<Rightarrow> string \<Rightarrow> datetime option" where
  "strptime s fmt =
     (case re_match (format_regex fmt) s of
        None \<Rightarrow> None
      | Some (c, p, rest) \<Rightarrow> if rest \<noteq> [] then None else build_datetime c)"

section \<open>The timestamp extractor (\<open>file_processor.py\<close>)\<close>

text \<open>The formats of \<open>_extract_timestamp\<close> before \<open>%s\<close>, in the order of the source.\<close>

definition timestamp_formats :: "string list" where
  "timestamp_formats =
     [''%Y-%m-%dT%H:%M:%S.%fZ'', ''%Y-%m-%dT%H:%M:%SZ'', ''%Y-%m-%dT%H:%M:%S.%f'',
      ''%Y-%m-%dT%H:%M:%S'', ''%Y-%m-%dT%H:%M:%S%z'', ''%Y-%m-%d %H:%M:%S.%f'',
      ''%Y-%m-%d %H:%M:%S'', ''%b %d %H:%M:%S'', ''%Y %b %d %H:%M:%S'', ''%m/%d/%Y %H:%M:%S'',
      ''%d/%m/%Y %H:%M:%S'', ''%Y/%m/%d %H:%M:%S'']"

fun try_formats :: "string list \<Rightarrow> string \<Rightarrow> datetime option" where
  "try_formats [] s = None"
| "try_formats (fmt # fmts) s =
     (case strptime s fmt of Some t \<Rightarrow> Some t | None \<Rightarrow> try_formats fmts s)"

text \<open>
  The \<open>%s\<close> entry of the format list: \<open>float\<close> of the text as Unix seconds. The loop
  catches \<open>ValueError\<close>, \<open>TypeError\<close> and \<open>OverflowError\<close> and moves on (an infinity
  or a NaN makes \<open>fromtimestamp\<close> raise one of them); any other exception leaves the
  function.
\<close>

definition unix_seconds :: "pylib \<Rightarrow> string \<Rightarrow> pyerr + datetime option" where
  "unix_seconds L s =
     (case py_float s of
        None \<Rightarrow> Inr None
      | Some NonFinite \<Rightarrow> Inr None
      | Some (Finite v) \<Rightarrow>
          (case fromtimestamp L v of
             Inr t \<Rightarrow> Inr (Some t)
           | Inl e \<Rightarrow> if e = ValueError \<or> e = TypeError \<or> e = OverflowError then Inr None
                      else Inl e))"

text \<open>
  The pure-digit branch after the loop, with the tests in the order of the source: the
  test for more than \<open>1e10\<close> comes first, so the branch for more than \<open>1e13\<close> is never
  taken. It catches \<open>ValueError\<close> and \<open>OverflowError\<close>.
\<close>

definition digit_fallback :: "pylib \<Rightarrow> string \<Rightarrow> pyerr + datetime option" where
  "digit_fallback L s =
     (if py_isdigit s then
        (case py_int s of
           None \<Rightarrow> Inr None
         | Some n \<Rightarrow>
             (case (if n > 10 ^ 10 then fromtimestamp L (of_int n / 1000)
                    else if n > 10 ^ 13 then fromtimestamp L (of_int n / 1000000)
                    else fromtimestamp L (of_int n)) of
                Inr t \<Rightarrow> Inr (Some t)
              | Inl e \<Rightarrow> if e = ValueError \<or> e = OverflowError then Inr None else Inl e))
      else Inr None)"

definition extract_timestamp :: "pylib \<Rightarrow> string option \<Rightarrow> pyerr + datetime option" where
  "extract_timestamp L timestamp_str =
     (case timestamp_str of
        None \<Rightarrow> Inr None
      | Some s0 \<Rightarrow>
          if s0 = [] then Inr None
          else
            let s = py_strip s0 in
            (case try_formats timestamp_formats s of
               Some t \<Rightarrow> Inr (Some t)
             | None \<Rightarrow>
                 (case unix_seconds L s of
                    Inl e \<Rightarrow> Inl e
                  | Inr (Some t) \<Rightarrow> Inr (Some t)
                  | Inr None \<Rightarrow> digit_fallback L s)))"

section \<open>Log levels and entries (\<open>schemas.py\<close>)\<close>

datatype log_level = ERROR | WARN | WARNING | INFO | DEBUG | TRACE | FATAL | CRITICAL

record log_entry =
  timestamp :: "datetime option"
  level :: "log_level option"
  service :: "string option"
  message :: string
  raw_line :: string
  line_number :: nat
  metadata :: "(string \<times> json) list"

section \<open>The level classifier (\<open>file_processor.py\<close>)\<close>

text \<open>\<^verbatim>\<open>\b(?:A|B|C)\b\<close> and \<^verbatim>\<open>\[(?:A|B|C)\]\<close>.\<close>

definition kw :: "string list \<Rightarrow> regex" where
  "kw ws = seqs [WordB, alts (map lits ws), WordB]"

definition br :: "string list \<Rightarrow> regex" where
  "br ws = seqs [lit (CHR ''[''), alts (map lits ws), lit (CHR '']'')]"

text \<open>The table \<open>enhanced_patterns\<close> of \<open>_extract_log_level\<close>, in its order.\<close>

definition enhanced_patterns :: "(log_level \<times> regex list) list" where
  "enhanced_patterns =
     [(FATAL, [kw [''FATAL''], kw [''CRITICAL''], kw [''EMERGENCY'']]),
      (ERROR, [kw [''ERROR''], kw [''ERR''], kw [''FAILED''], kw [''FAILURE'']]),
      (WARN, [kw [''WARN''], kw [''WARNING''], kw [''ALERT'']]),
      (INFO, [kw [''INFO''], kw [''INFORMATION''], kw [''NOTICE'']]),
      (DEBUG, [kw [''DEBUG''], kw [''TRACE''], kw [''VERBOSE'']])]"

text \<open>The table \<open>self.log_level_patterns\<close>, in its order.\<close>

definition log_level_patterns :: "(log_level \<times> regex list) list" where
  "log_level_patterns =
     [(ERROR, [kw [''ERROR'', ''ERR'', ''ERRO''], kw [''error'', ''err'', ''erro''],
               kw [''Error'', ''Err'', ''Erro''], br [''ERROR'', ''ERR'', ''ERRO''],
               br [''error'', ''err'', ''erro'']]),
      (WARN, [kw [''WARN'', ''WARNING'', ''WARN''], kw [''warn'', ''warning''],
              kw [''Warn'', ''Warning''], br [''WARN'', ''WARNING''], br [''warn'', ''warning'']]),
      (INFO, [kw [''INFO'', ''INFORMATION''], kw [''info'', ''information''],
              kw [''Info'', ''Information''], br [''INFO'', ''INFORMATION''],
              br [''info'', ''information'']]),
      (DEBUG, [kw [''DEBUG'', ''DBG''], kw [''debug'', ''dbg''], kw [''Debug'', ''Dbg''],
               br [''DEBUG'', ''DBG''], br [''debug'', ''dbg'']]),
      (TRACE, [kw [''TRACE'', ''TRC''], kw [''trace'', ''trc''], kw [''Trace'', ''Trc''],
               br [''TRACE'', ''TRC''], br [''trace'', ''trc'']]),
      (FATAL, [kw [''FATAL'', ''CRIT'', ''CRITICAL''], kw [''fatal'', ''crit'', ''critical''],
               kw [''Fatal'', ''Crit'', ''Critical''], br [''FATAL'', ''CRIT'', ''CRITICAL''],
               br [''fatal'', ''crit'', ''critical'']])]"

fun first_level :: "(log_level \<times> regex list) list \<Rightarrow> string \<Rightarrow> log_level option" where
  "first_level [] text = None"
| "first_level ((lv, rs) # tbl) text =
     (if list_ex (\<lambda>r. re_found r text) rs then Some lv else first_level tbl text)"

definition extract_log_level :: "string \<Rightarrow> log_level option" where
  "extract_log_level text =
     (if text = [] then None
      else
        let text_upper = py_upper text in
        (case first_level enhanced_patterns text_upper of
           Some lv \<Rightarrow> Some lv
         | None \<Rightarrow> first_level log_level_patterns text_upper))"

section \<open>Building entries (\<open>file_processor.py\<close>)\<close>

definition create_fallback_entry :: "string \<Rightarrow> nat \<Rightarrow> string \<Rightarrow> log_entry" where
  "create_fallback_entry line line_num reason =
     \<lparr> timestamp = None, level = Some INFO, service = None,
       message = (if line = [] then ''(empty line)'' else line),
       raw_line = line, line_number = line_num,
       metadata = [(''parse_error'', JStr reason)] \<rparr>"

text \<open>
  \<open>_create_log_entry_from_text\<close> loops over \<open>self.timestamp_patterns\<close>, a dictionary, so
  the loop variable is a key, not the pattern stored under it: the line is searched for
  the name of the pattern, and the name is what the timestamp extractor is given.
\<close>

definition timestamp_pattern_names :: "string list" where
  "timestamp_pattern_names =
     [''iso8601_with_tz'', ''iso8601_simple'', ''syslog'', ''us_format'', ''european'',
      ''unix_timestamp'', ''apache_common'']"

fun text_timestamp :: "pylib \<Rightarrow> string list \<Rightarrow> string \<Rightarrow> pyerr + datetime option" where
  "text_timestamp L [] line = Inr None"
| "text_timestamp L (name # names) line =
     (if re_found (lits name) line then extract_timestamp L (Some name)
      else text_timestamp L names line)"

definition create_log_entry_from_text :: "pylib \<Rightarrow> string \<Rightarrow> nat \<Rightarrow> pyerr + log_entry" where
  "create_log_entry_from_text L line line_num =
     (case text_timestamp L timestamp_pattern_names line of
        Inl e \<Rightarrow> Inl e
      | Inr ts \<Rightarrow>
          Inr \<lparr> timestamp = ts, level = extract_log_level line, service = extract_service (Some line),
                message = line, raw_line = line, line_number = line_num, metadata = [] \<rparr>)"

text \<open>\<open>d.get(k)\<close>, \<open>a or b\<close> on optional values, and the argument of the extractors.\<close>

definition opt_truthy :: "json option \<Rightarrow> bool" where
  "opt_truthy v = (case v of None \<Rightarrow> False | Some j \<Rightarrow> truthy j)"

definition py_or :: "json option \<Rightarrow> json option \<Rightarrow> json option" where
  "py_or a b = (if opt_truthy a then a else b)"

definition str_arg :: "pylib \<Rightarrow> json option \<Rightarrow> string option" where
  "str_arg L v = (case v of None \<Rightarrow> None | Some j \<Rightarrow> if truthy j then Some (py_str L j) else None)"

definition get_default :: "(string \<times> json) list \<Rightarrow> string \<Rightarrow> json option \<Rightarrow> json option" where
  "get_default d k dflt = (case map_of d k of Some v \<Rightarrow> Some v | None \<Rightarrow> dflt)"

definition create_log_entry_from_json ::
    "pylib \<Rightarrow> (string \<times> json) list \<Rightarrow> string \<Rightarrow> nat \<Rightarrow> pyerr + log_entry" where
  "create_log_entry_from_json L data line line_num =
     (case extract_timestamp L
             (str_arg L (py_or (py_or (map_of data ''timestamp'') (map_of data ''time''))
                               (map_of data ''@timestamp''))) of
        Inl e \<Rightarrow> Inl e
      | Inr ts \<Rightarrow>
          let lv = extract_log_level
                     (case get_default data ''level'' (get_default data ''severity'' (Some (JStr [])))
                      of None \<Rightarrow> [] | Some j \<Rightarrow> py_str L j);
              sv = extract_service
                     (str_arg L (get_default data ''service''
                        (get_default data ''logger'' (map_of data ''component''))));
              msg = (case get_default data ''message''
                            (get_default data ''msg'' (Some (JStr (str_of L (JObj data))))) of
                       None \<Rightarrow> JNull | Some j \<Rightarrow> j)
          in (case pydantic_str L msg of
                None \<Rightarrow> Inl ValidationError
              | Some m \<Rightarrow>
                  Inr \<lparr> timestamp = ts, level = lv, service = sv, message = m, raw_line = line,
                        line_number = line_num, metadata = data \<rparr>))"

subsection \<open>Syslog lines\<close>

text \<open>
  The five patterns of \<open>_parse_syslog_logs\<close>, in the order of the source. The classic
  timestamp \<^verbatim>\<open>\w{3}\s+\d{1,2}\s+\d{2}:\d{2}:\d{2}\<close> is shared by four of them.
\<close>

definition two_digits :: regex where
  "two_digits = rep 2 (Ch digit)"

definition classic_timestamp :: regex where
  "classic_timestamp =
     seqs [rep 3 (Ch wordc), many1 space, Ch digit, atmost 1 (Ch digit), many1 space,
           two_digits, lit (CHR '':''), two_digits, lit (CHR '':''), two_digits]"

definition syslog_patterns :: "regex list" where
  "syslog_patterns =
     [seqs [Bol, lit (CHR ''<''), Grp ''priority'' (many1 digit), lit (CHR ''>''),
            Grp ''timestamp'' classic_timestamp, many1 space, Grp ''hostname'' (many1 nonspace),
            many1 space, Grp ''tag'' (many1_lazy nonspace), lit (CHR '':''), Star True space,
            Grp ''message'' (Star True Dot), Eol],
      seqs [Bol, Grp ''timestamp'' classic_timestamp, many1 space,
            Grp ''hostname'' (many1 nonspace), many1 space, Grp ''service'' (many1_lazy nonspace),
            lit (CHR '':''), Star True space, Grp ''message'' (Star True Dot), Eol],
      seqs [Bol,
            Grp ''timestamp''
              (seqs [rep 4 (Ch digit), lit (CHR ''-''), two_digits, lit (CHR ''-''), two_digits,
                     lit (CHR ''T''), two_digits, lit (CHR '':''), two_digits, lit (CHR '':''),
                     two_digits, opt (Seq (lit (CHR ''.'')) (many1 digit)),
                     opt (Alt (lit (CHR ''Z''))
                              (seqs [Ch (In [CChar (CHR ''+''), CChar (CHR ''-'')]), two_digits,
                                     lit (CHR '':''), two_digits]))]),
            many1 space, Grp ''hostname'' (many1 nonspace), many1 space,
            Grp ''service'' (many1 nonspace), many1 space, Grp ''message'' (Star True Dot), Eol],
      seqs [Bol, Grp ''timestamp'' classic_timestamp, many1 space,
            Grp ''hostname'' (many1 nonspace), many1 space,
            Grp ''tag'' (many1 (NotIn [CChar (CHR '':'')])), lit (CHR '':''), Star True space,
            Grp ''message'' (Star True Dot), Eol],
      seqs [Bol, Grp ''timestamp'' classic_timestamp, many1 space,
            Grp ''message'' (Star True Dot), Eol]]"

definition opt_str :: "string option \<Rightarrow> json" where
  "opt_str v = (case v of None \<Rightarrow> JNull | Some s \<Rightarrow> JStr s)"

text \<open>The level of a syslog priority: \<open>int(priority) % 8\<close>.\<close>

definition priority_level :: "string \<Rightarrow> log_level option" where
  "priority_level priority =
     (case py_int priority of
        None \<Rightarrow> None
      | Some n \<Rightarrow>
          let severity = n mod 8 in
          if severity \<le> 3 then Some ERROR
          else if severity = 4 then Some WARN
          else if severity \<le> 6 then Some INFO
          else Some DEBUG)"

definition create_log_entry_from_syslog_match ::
    "pylib \<Rightarrow> caps \<Rightarrow> string \<Rightarrow> nat \<Rightarrow> pyerr + log_entry" where
  "create_log_entry_from_syslog_match L groups line line_num =
     (let timestamp_str = group groups ''timestamp'';
          hostname = group groups ''hostname'';
          sv = (case group groups ''service'' of
                  None \<Rightarrow> group groups ''tag''
                | Some s \<Rightarrow> if s \<noteq> [] then Some s else group groups ''tag'');
          msg = (case group groups ''message'' of None \<Rightarrow> [] | Some m \<Rightarrow> m);
          priority = group groups ''priority''
      in case (case timestamp_str of
                 None \<Rightarrow> Inr None
               | Some t \<Rightarrow> if t = [] then Inr None else extract_timestamp L (Some t)) of
           Inl e \<Rightarrow> Inl e
         | Inr ts \<Rightarrow>
             let lv0 = (case priority of
                          None \<Rightarrow> None
                        | Some pr \<Rightarrow> if pr = [] then None else priority_level pr);
                 lv = (case lv0 of None \<Rightarrow> extract_log_level msg | Some l \<Rightarrow> Some l)
             in Inr \<lparr> timestamp = ts, level = lv, service = extract_service sv, message = msg,
                      raw_line = line, line_number = line_num,
                      metadata = [(''hostname'', opt_str hostname),
                                  (''priority'', opt_str priority)] \<rparr>)"

subsection \<open>Structured (key=value) lines\<close>

text \<open>
  \<open>re.findall\<close>: the groups of the non-overlapping matches from the left (after an empty
  match the scan moves on by one character).
\<close>

function findall_from :: "regex \<Rightarrow> char option \<Rightarrow> string \<Rightarrow> caps list" where
  "findall_from r p [] = (case match_here r p [] of Some (c, p', s') \<Rightarrow> [c] | None \<Rightarrow> [])"
| "findall_from r p (x # xs) =
     (case match_here r p (x # xs) of
        Some (c, p', s') \<Rightarrow>
          if length s' < length (x # xs) then c # findall_from r p' s'
          else c # findall_from r (Some x) xs
      | None \<Rightarrow> findall_from r (Some x) xs)"
  by pat_completeness auto
termination
  by (relation "measure (\<lambda>(r, p, s). length s)") auto

definition re_findall :: "regex \<Rightarrow> string \<Rightarrow> caps list" where
  "re_findall r s = findall_from r None s"

text \<open>
  \<open>kv_pattern\<close>: \<^verbatim>\<open>(\w+)=(?:"([^"]*)"|'([^']*)'|([^\s]+))\<close>.
\<close>

definition kv_pattern :: regex where
  "kv_pattern =
     seqs [Grp ''1'' (many1 wordc), lit (CHR ''=''),
           alts [seqs [lit dquote, Grp ''2'' (Star True (NotIn [CChar dquote])), lit dquote],
                 seqs [lit squote, Grp ''3'' (Star True (NotIn [CChar squote])), lit squote],
                 Grp ''4'' (many1 nonspace)]]"

text \<open>A group of a \<open>findall\<close> tuple: empty when it took no part in the match.\<close>

definition group_or_empty :: "caps \<Rightarrow> string \<Rightarrow> string" where
  "group_or_empty c n = (case group c n of None \<Rightarrow> [] | Some s \<Rightarrow> s)"

text \<open>\<open>d[k] = v\<close> on a dictionary that keeps the order of first insertion.\<close>

fun dict_set :: "('k \<times> 'v) list \<Rightarrow> 'k \<Rightarrow> 'v \<Rightarrow> ('k \<times> 'v) list" where
  "dict_set [] k v = [(k, v)]"
| "dict_set ((k', v') # d) k v = (if k' = k then (k, v) # d else (k', v') # dict_set d k v)"

definition structured_data_of :: "string \<Rightarrow> (string \<times> string) list" where
  "structured_data_of line =
     foldl (\<lambda>d c. dict_set d (group_or_empty c ''1'')
                    (if group_or_empty c ''2'' \<noteq> [] then group_or_empty c ''2''
                     else if group_or_empty c ''3'' \<noteq> [] then group_or_empty c ''3''
                     else group_or_empty c ''4''))
       [] (re_findall kv_pattern line)"

text \<open>\<open>a or b\<close> on optional texts.\<close>

definition str_or :: "string option \<Rightarrow> string option \<Rightarrow> string option" where
  "str_or a b = (case a of None \<Rightarrow> b | Some s \<Rightarrow> if s \<noteq> [] then a else b)"

fun join_with :: "string \<Rightarrow> string list \<Rightarrow> string" where
  "join_with sep [] = []"
| "join_with sep [x] = x"
| "join_with sep (x # xs) = x @ sep @ join_with sep xs"

definition create_log_entry_from_structured :: "pylib \<Rightarrow> string \<Rightarrow> nat \<Rightarrow> pyerr + log_entry" where
  "create_log_entry_from_structured L line line_num =
     (let d = structured_data_of line in
      if d = [] then create_log_entry_from_text L line line_num
      else
        (case extract_timestamp L
                (str_or (str_or (map_of d ''timestamp'') (map_of d ''time'')) (map_of d ''ts'')) of
           Inl e \<Rightarrow> Inl e
         | Inr ts \<Rightarrow>
             let lv = extract_log_level
                        (case str_or (str_or (map_of d ''level'') (map_of d ''severity''))
                                (case map_of d ''loglevel'' of None \<Rightarrow> Some [] | Some s \<Rightarrow> Some s)
                         of None \<Rightarrow> [] | Some s \<Rightarrow> s);
                 sv = extract_service
                        (str_or (str_or (map_of d ''service'') (map_of d ''component''))
                                (map_of d ''logger''));
                 msg = (case str_or (str_or (map_of d ''message'') (map_of d ''msg''))
                               (Some (join_with '' '' (map (\<lambda>(k, v). k @ ''='' @ v) d))) of
                          None \<Rightarrow> [] | Some s \<Rightarrow> s)
             in Inr \<lparr> timestamp = ts, level = lv, service = sv, message = msg, raw_line = line,
                      line_number = line_num, metadata = map (\<lambda>(k, v). (k, JStr v)) d \<rparr>))"

section \<open>The parsers (\<open>file_processor.py\<close>)\<close>

text \<open>
  The loop shared by the line parsers: \<open>for line_num, line in enumerate(lines, 1)\<close>,
  where a line that is empty after \<open>strip()\<close> is skipped and every other line appends
  the entry that \<open>f\<close> builds for it. An exception that \<open>f\<close> lets out ends the parse.
\<close>

fun parse_lines :: "(string \<Rightarrow> nat \<Rightarrow> pyerr + log_entry) \<Rightarrow> (nat \<times> string) list \<Rightarrow>
    pyerr + log_entry list" where
  "parse_lines f [] = Inr []"
| "parse_lines f ((line_num, l) # rest) =
     (let line = py_strip l in
      if line = [] then parse_lines f rest
      else
        (case f line line_num of
           Inl e \<Rightarrow> Inl e
         | Inr entry \<Rightarrow>
             (case parse_lines f rest of
                Inl e \<Rightarrow> Inl e
              | Inr entries \<Rightarrow> Inr (entry # entries))))"

text \<open>\<open>lines = content.strip().split('\n')\<close>, numbered from 1.\<close>

definition numbered_lines :: "string \<Rightarrow> (nat \<times> string) list" where
  "numbered_lines content = enumerate_from 1 (split_nl (py_strip content))"

definition parse_plain_text_logs :: "pylib \<Rightarrow> string \<Rightarrow> pyerr + log_entry list" where
  "parse_plain_text_logs L content =
     parse_lines (create_log_entry_from_text L) (numbered_lines content)"

text \<open>
  \<open>_parse_structured_logs\<close>: any exception of the structured constructor falls back to
  the plain-text constructor.
\<close>

definition structured_line :: "pylib \<Rightarrow> string \<Rightarrow> nat \<Rightarrow> pyerr + log_entry" where
  "structured_line L line line_num =
     (case create_log_entry_from_structured L line line_num of
        Inr entry \<Rightarrow> Inr entry
      | Inl e \<Rightarrow> create_log_entry_from_text L line line_num)"

definition parse_structured_logs :: "pylib \<Rightarrow> string \<Rightarrow> pyerr + log_entry list" where
  "parse_structured_logs L content = parse_lines (structured_line L) (numbered_lines content)"

text \<open>
  \<open>_parse_syslog_logs\<close>: the first pattern that matches the line decides; an exception
  while building the entry gives a fallback entry; a line that no pattern matches is
  built as plain text.
\<close>

fun first_match :: "regex list \<Rightarrow> string \<Rightarrow> caps option" where
  "first_match [] line = None"
| "first_match (r # rs) line =
     (case re_match r line of Some (c, p, rest) \<Rightarrow> Some c | None \<Rightarrow> first_match rs line)"

definition syslog_line :: "pylib \<Rightarrow> string \<Rightarrow> nat \<Rightarrow> pyerr + log_entry" where
  "syslog_line L line line_num =
     (case first_match syslog_patterns line of
        Some groups \<Rightarrow>
          (case create_log_entry_from_syslog_match L groups line line_num of
             Inr entry \<Rightarrow> Inr entry
           | Inl e \<Rightarrow>
               Inr (create_fallback_entry line line_num (''Syslog parse error: '' @ exc_str L e)))
      | None \<Rightarrow> create_log_entry_from_text L line line_num)"

definition parse_syslog_logs :: "pylib \<Rightarrow> string \<Rightarrow> pyerr + log_entry list" where
  "parse_syslog_logs L content = parse_lines (syslog_line L) (numbered_lines content)"

text \<open>
  \<open>_parse_json_logs\<close>: an object becomes an entry, any other value and any failure a
  fallback entry with its reason.
\<close>

definition json_line :: "pylib \<Rightarrow> string \<Rightarrow> nat \<Rightarrow> pyerr + log_entry" where
  "json_line L line line_num =
     (case json_loads L line of
        Inl msg \<Rightarrow> Inr (create_fallback_entry line line_num (''JSON decode error: '' @ msg))
      | Inr (JObj data) \<Rightarrow>
          (case create_log_entry_from_json L data line line_num of
             Inr entry \<Rightarrow> Inr entry
           | Inl e \<Rightarrow>
               Inr (create_fallback_entry line line_num (''Unexpected error: '' @ exc_str L e)))
      | Inr _ \<Rightarrow> Inr (create_fallback_entry line line_num ''Non-object JSON''))"

definition parse_json_logs :: "pylib \<Rightarrow> string \<Rightarrow> pyerr + log_entry list" where
  "parse_json_logs L content = parse_lines (json_line L) (numbered_lines content)"

subsection \<open>CSV\<close>

text \<open>
  The first of the columns \<open>cols\<close> that the row has with a non-empty value.
\<close>

fun first_col :: "string list \<Rightarrow> (string \<times> string option) list \<Rightarrow> string option" where
  "first_col [] row = None"
| "first_col (col # cols) row =
     (case map_of row col of
        Some (Some v) \<Rightarrow> if v \<noteq> [] then Some v else first_col cols row
      | _ \<Rightarrow> first_col cols row)"

text \<open>
  \<open>_create_log_entry_from_csv\<close>. A row shorter than the header has \<open>None\<close> values, on
  which \<open>",".join(row.values())\<close> raises \<open>TypeError\<close>.
\<close>

definition create_log_entry_from_csv ::
    "pylib \<Rightarrow> (string \<times> string option) list \<Rightarrow> nat \<Rightarrow> pyerr + log_entry" where
  "create_log_entry_from_csv L row line_num =
     (case (case first_col [''timestamp'', ''time'', ''datetime'', ''date''] row of
              None \<Rightarrow> Inr None
            | Some v \<Rightarrow> extract_timestamp L (Some v)) of
        Inl e \<Rightarrow> Inl e
      | Inr ts \<Rightarrow>
          let lv = (case first_col [''level'', ''severity'', ''loglevel''] row of
                      None \<Rightarrow> None | Some v \<Rightarrow> extract_log_level v);
              sv = (case first_col [''service'', ''logger'', ''component'', ''source''] row of
                      None \<Rightarrow> None | Some v \<Rightarrow> extract_service (Some v));
              msg0 = (case first_col [''message'', ''msg'', ''description'', ''text''] row of
                        None \<Rightarrow> [] | Some v \<Rightarrow> v);
              msg = (if msg0 \<noteq> [] then msg0
                     else join_with '' | ''
                            (concat (map (\<lambda>(k, v). case v of None \<Rightarrow> []
                                            | Some t \<Rightarrow> if t \<noteq> [] then [k @ '': '' @ t] else [])
                                         row)))
          in if list_ex (\<lambda>(k, v). v = None) row then Inl TypeError
             else
               Inr \<lparr> timestamp = ts, level = lv, service = sv, message = msg,
                     raw_line = join_with '','' (map (\<lambda>(k, v). case v of None \<Rightarrow> [] | Some t \<Rightarrow> t) row),
                     line_number = line_num,
                     metadata = map (\<lambda>(k, v). (k, opt_str v)) row \<rparr>)"

text \<open>
  \<open>_parse_csv_logs\<close>. The rows come from the \<open>csv\<close> module:
  \<open>csv_dict_rows L content\<close> is the list of rows that \<open>csv.DictReader\<close> yields for the
  content, each without its \<open>None\<close> key and with the source line it came from, or \<open>None\<close>
  when the content has fewer than two lines, has no header, or the module raises. In that
  case the whole content is parsed as plain text.
\<close>

definition csv_row_entry :: "pylib \<Rightarrow> nat \<Rightarrow> (string \<times> string option) list \<times> string \<Rightarrow> log_entry" where
  "csv_row_entry L line_num rw =
     (case rw of (row, src) \<Rightarrow>
        if row = [] then create_fallback_entry [] line_num ''Empty CSV row''
        else
          (case create_log_entry_from_csv L row line_num of
             Inr entry \<Rightarrow> entry
           | Inl e \<Rightarrow> create_fallback_entry src line_num (''CSV parse error: '' @ exc_str L e)))"

definition parse_csv_logs :: "pylib \<Rightarrow> string \<Rightarrow> pyerr + log_entry list" where
  "parse_csv_logs L content =
     (case csv_dict_rows L content of
        None \<Rightarrow> parse_plain_text_logs L content
      | Some rows \<Rightarrow> Inr (map (\<lambda>(n, rw). csv_row_entry L n rw) (enumerate_from 2 rows)))"

section \<open>Format detection (\<open>file_processor.py\<close>)\<close>

datatype log_format = JSON | CSV | SYSLOG | PLAIN_TEXT | CUSTOM

text \<open>
  \<open>os.path.splitext(filename)[1].lower()\<close>: the text from the last dot of the last path
  component, unless only dots come before it in that component.
\<close>

definition basename :: "string \<Rightarrow> string" where
  "basename p = rev (takeWhile (\<lambda>c. c \<noteq> CHR ''/'') (rev p))"

definition splitext_ext :: "string \<Rightarrow> string" where
  "splitext_ext p =
     (let b = basename p;
          stem = rev (drop 1 (dropWhile (\<lambda>c. c \<noteq> CHR ''.'') (rev b)));
          ext = CHR ''.'' # rev (takeWhile (\<lambda>c. c \<noteq> CHR ''.'') (rev b))
      in if CHR ''.'' \<in> set b \<and> list_ex (\<lambda>c. c \<noteq> CHR ''.'') stem then ext else [])"

definition format_from_extension :: "string \<Rightarrow> log_format" where
  "format_from_extension filename =
     (let ext = py_lower (splitext_ext filename) in
      if ext = ''.json'' then JSON
      else if ext = ''.csv'' then CSV
      else if ext = ''.syslog'' then SYSLOG
      else PLAIN_TEXT)"

text \<open>The thresholds \<open>self.detection_thresholds\<close>.\<close>

definition json_confidence :: rat where
  "json_confidence = 7 / 10"

definition csv_confidence :: rat where
  "csv_confidence = 8 / 10"

definition syslog_confidence :: rat where
  "syslog_confidence = 6 / 10"

definition minimum_lines :: nat where
  "minimum_lines = 3"

text \<open>The scores are Python floats; they are exact rationals here.\<close>

definition is_json_object :: "pylib \<Rightarrow> string \<Rightarrow> bool" where
  "is_json_object L line = (case json_loads L line of Inr (JObj d) \<Rightarrow> True | _ \<Rightarrow> False)"

definition score_json_format :: "pylib \<Rightarrow> string list \<Rightarrow> rat" where
  "score_json_format L lines =
     (if lines = [] then 0
      else
        let total_non_empty = length (filter (\<lambda>l. py_strip l \<noteq> []) lines);
            valid_json_count = length (filter (\<lambda>l. py_strip l \<noteq> [] \<and> is_json_object L l) lines)
        in if total_non_empty = 0 then 0
           else of_nat valid_json_count / of_nat total_non_empty)"

definition header_like :: "string \<Rightarrow> bool" where
  "header_like col = py_isalpha (remove_char (CHR '' '') (remove_char (CHR ''_'') col))"

definition score_csv_format :: "pylib \<Rightarrow> string list \<Rightarrow> rat" where
  "score_csv_format L lines =
     (if length lines < 2 then 0
      else
        (case csv_rows L lines of
           None \<Rightarrow> 0
         | Some rows \<Rightarrow>
             (case rows of
                [] \<Rightarrow> 0
              | header # data \<Rightarrow>
                  if data = [] then 0
                  else if length header < 2 then 0
                  else
                    let consistent_cols = length (filter (\<lambda>row. length row = length header) data);
                        consistency_score = of_nat consistent_cols / of_nat (length data);
                        header_bonus = (if list_all header_like header then 2 / 10 else 0)
                    in min 1 (consistency_score + header_bonus))))"

text \<open>
  The three patterns of \<open>_score_syslog_format\<close>: \<^verbatim>\<open>^\w{3}\s+\d{1,2}\s+\d{2}:\d{2}:\d{2}\<close>,
  \<^verbatim>\<open>^<\d+>\<close>, \<^verbatim>\<open>^\d{4}-\d{2}-\d{2}T\d{2}:\d{2}:\d{2}\<close>.
\<close>

definition iso_date :: regex where
  "iso_date = seqs [rep 4 (Ch digit), lit (CHR ''-''), two_digits, lit (CHR ''-''), two_digits]"

definition clock_time :: regex where
  "clock_time = seqs [two_digits, lit (CHR '':''), two_digits, lit (CHR '':''), two_digits]"

definition syslog_score_patterns :: "regex list" where
  "syslog_score_patterns =
     [Seq Bol classic_timestamp,
      seqs [Bol, lit (CHR ''<''), many1 digit, lit (CHR ''>'')],
      seqs [Bol, iso_date, lit (CHR ''T''), clock_time]]"

definition score_syslog_format :: "string list \<Rightarrow> rat" where
  "score_syslog_format lines =
     (if lines = [] then 0
      else
        let matching_lines =
              length (filter (\<lambda>l. list_ex (\<lambda>r. re_found r l) syslog_score_patterns) (take 20 lines))
        in of_nat matching_lines / of_nat (min (length lines) 20))"

text \<open>
  The four patterns of \<open>_score_structured_format\<close>: \<^verbatim>\<open>\w+=\w+\<close>, \<^verbatim>\<open>\w+:\s*\w+\<close>,
  \<^verbatim>\<open>\[\w+\]\<close>, \<^verbatim>\<open>\d{4}-\d{2}-\d{2}[\sT]\d{2}:\d{2}:\d{2}\<close>.
\<close>

definition structured_patterns :: "regex list" where
  "structured_patterns =
     [seqs [many1 wordc, lit (CHR ''=''), many1 wordc],
      seqs [many1 wordc, lit (CHR '':''), Star True space, many1 wordc],
      seqs [lit (CHR ''[''), many1 wordc, lit (CHR '']'')],
      seqs [iso_date, Ch (In [CSpace, CChar (CHR ''T'')]), clock_time]]"

definition line_score :: "string \<Rightarrow> rat" where
  "line_score l =
     min (of_nat (length (filter (\<lambda>r. re_found r l) structured_patterns))
            / of_nat (length structured_patterns)) 1"

definition score_structured_format :: "string list \<Rightarrow> rat" where
  "score_structured_format lines =
     (if lines = [] then 0
      else sum_list (map line_score (take 20 lines)) / of_nat (min (length lines) 20))"

text \<open>
  \<open>max(scores, key=scores.get)\<close> over a dictionary: the first key, in insertion order,
  whose score is the largest.
\<close>

fun best_of :: "('k \<times> rat) \<Rightarrow> ('k \<times> rat) list \<Rightarrow> ('k \<times> rat)" where
  "best_of b [] = b"
| "best_of b (x # xs) = best_of (if snd b < snd x then x else b) xs"

text \<open>The dictionary \<open>scores\<close>: its first item and the items after it.\<close>

definition other_scores :: "pylib \<Rightarrow> string list \<Rightarrow> (log_format \<times> rat) list" where
  "other_scores L sample_lines =
     [(CSV, score_csv_format L sample_lines),
      (SYSLOG, score_syslog_format sample_lines),
      (CUSTOM, score_structured_format sample_lines),
      (PLAIN_TEXT, 1 / 10)]"

definition format_scores :: "pylib \<Rightarrow> string list \<Rightarrow> (log_format \<times> rat) list" where
  "format_scores L sample_lines =
     (JSON, score_json_format L sample_lines) # other_scores L sample_lines"

definition best_format :: "pylib \<Rightarrow> string list \<Rightarrow> log_format \<times> rat" where
  "best_format L sample_lines =
     best_of (JSON, score_json_format L sample_lines) (other_scores L sample_lines)"

definition nonblank_lines :: "string \<Rightarrow> string list" where
  "nonblank_lines content =
     map py_strip (filter (\<lambda>l. py_strip l \<noteq> []) (split_nl content))"

definition apply_thresholds :: "log_format \<times> rat \<Rightarrow> log_format \<times> rat" where
  "apply_thresholds best =
     (case best of (fmt, confidence) \<Rightarrow>
        if fmt = JSON \<and> confidence < json_confidence then (PLAIN_TEXT, 1 / 2)
        else if fmt = CSV \<and> confidence < csv_confidence then (PLAIN_TEXT, 1 / 2)
        else if fmt = SYSLOG \<and> confidence < syslog_confidence then (PLAIN_TEXT, 1 / 2)
        else (fmt, confidence))"

definition detect_log_format :: "pylib \<Rightarrow> string \<Rightarrow> string \<Rightarrow> log_format \<times> rat" where
  "detect_log_format L content filename =
     (let lines = nonblank_lines content in
      if length lines < minimum_lines then (format_from_extension filename, 1 / 2)
      else
        let sample_lines = take (min 100 (length lines)) lines
        in apply_thresholds (best_format L sample_lines))"

section \<open>The entry points (\<open>file_processor.py\<close>)\<close>

definition parse_as :: "pylib \<Rightarrow> log_format \<Rightarrow> string \<Rightarrow> pyerr + log_entry list" where
  "parse_as L file_format content =
     (if file_format = JSON then parse_json_logs L content
      else if file_format = CSV then parse_csv_logs L content
      else if file_format = SYSLOG then parse_syslog_logs L content
      else if file_format = CUSTOM then parse_structured_logs L content
      else parse_plain_text_logs L content)"

definition process_content ::
    "pylib \<Rightarrow> string \<Rightarrow> string \<Rightarrow> pyerr + (log_entry list \<times> log_format)" where
  "process_content L content filename =
     (if py_strip content = [] then Inr ([], PLAIN_TEXT)
      else
        (case detect_log_format L content filename of (file_format, confidence) \<Rightarrow>
           (case parse_as L file_format content of
              Inl e \<Rightarrow> Inl e
            | Inr entries \<Rightarrow> Inr (entries, file_format))))"

text \<open>
  \<open>process_file\<close>, as a function of the text read from the file: an empty file raises
  \<open>LogParsingError\<close>, and any other exception is wrapped in one.
\<close>

definition process_file :: "pylib \<Rightarrow> string \<Rightarrow> string \<Rightarrow> pyerr + log_entry list" where
  "process_file L content file_path =
     (if py_strip content = [] then
        Inl (LogParsingError ''File is empty or contains only whitespace'')
      else
        (case detect_log_format L content (basename file_path) of (file_format, confidence) \<Rightarrow>
           (case parse_as L file_format content of
              Inl (LogParsingError m) \<Rightarrow> Inl (LogParsingError m)
            | Inl e \<Rightarrow>
                Inl (LogParsingError (''Failed to process file '' @ basename file_path @ '': ''
                                      @ exc_str L e))
            | Inr entries \<Rightarrow> Inr entries)))"

section \<open>Message normalizers\<close>

text \<open>
  The patterns that the two normalizers share:
  \<^verbatim>\<open>\d{4}-\d{2}-\d{2}[T\s]\d{2}:\d{2}:\d{2}(\.\d+)?(Z|[+-]\d{2}:?\d{2})?\<close>,
  \<^verbatim>\<open>\b[0-9a-f]{8}-[0-9a-f]{4}-[0-9a-f]{4}-[0-9a-f]{4}-[0-9a-f]{12}\b\<close>,
  \<^verbatim>\<open>\b\d{6,}\b\<close>, \<^verbatim>\<open>\b\d{1,3}\.\d{1,3}\.\d{1,3}\.\d{1,3}\b\<close> and \<^verbatim>\<open>\b\d+\b\<close>.
\<close>

definition re_timestamp :: regex where
  "re_timestamp =
     seqs [iso_date, Ch (In [CChar (CHR ''T''), CSpace]), clock_time,
           opt (Grp ''1'' (Seq (lit (CHR ''.'')) (many1 digit))),
           opt (Grp ''2'' (Alt (lit (CHR ''Z''))
                              (seqs [Ch (In [CChar (CHR ''+''), CChar (CHR ''-'')]), two_digits,
                                     opt (lit (CHR '':'')), two_digits])))]"

definition re_uuid :: regex where
  "re_uuid =
     seqs [WordB, rep 8 (Ch hexlow), lit (CHR ''-''), rep 4 (Ch hexlow), lit (CHR ''-''),
           rep 4 (Ch hexlow), lit (CHR ''-''), rep 4 (Ch hexlow), lit (CHR ''-''),
           rep 12 (Ch hexlow), WordB]"

definition re_long_number :: regex where
  "re_long_number = seqs [WordB, rep 6 (Ch digit), Star True digit, WordB]"

definition digits_1_3 :: regex where
  "digits_1_3 = Seq (Ch digit) (atmost 2 (Ch digit))"

definition re_ip :: regex where
  "re_ip =
     seqs [WordB, digits_1_3, lit (CHR ''.''), digits_1_3, lit (CHR ''.''), digits_1_3,
           lit (CHR ''.''), digits_1_3, WordB]"

definition re_number :: regex where
  "re_number = seqs [WordB, many1 digit, WordB]"

definition slashes :: cset where
  "slashes = In [CChar (CHR ''/''), CChar backslash]"

subsection \<open>\<open>LogAnalyzer._normalize_error_message\<close>\<close>

text \<open>The file-path pattern here is \<^verbatim>\<open>[/\\][^\s]+\<close>.\<close>

definition re_file_path :: regex where
  "re_file_path = Seq (Ch slashes) (many1 nonspace)"

definition normalize_error_message :: "string \<Rightarrow> string" where
  "normalize_error_message msg =
     re_sub re_number ''NUMBER''
       (re_sub re_file_path ''FILE_PATH''
          (re_sub re_ip ''IP_ADDRESS''
             (re_sub re_long_number ''ID''
                (re_sub re_uuid ''UUID''
                   (re_sub re_timestamp ''TIMESTAMP'' msg)))))"

subsection \<open>\<open>PatternDetector._normalize_message\<close>\<close>

text \<open>
  The further patterns: \<^verbatim>\<open>https?://[^\s]+\<close>, \<^verbatim>\<open>[/\\][^\s]*[/\\][^\s]*\<close>,
  \<^verbatim>\<open>"[^"]*"\<close>, \<^verbatim>\<open>'[^']*'\<close> and \<^verbatim>\<open>\s+\<close>.
\<close>

definition re_url :: regex where
  "re_url = seqs [lits ''http'', opt (lit (CHR ''s'')), lits ''://'', many1 nonspace]"

definition re_path :: regex where
  "re_path = seqs [Ch slashes, Star True nonspace, Ch slashes, Star True nonspace]"

definition re_dquoted :: regex where
  "re_dquoted = seqs [lit dquote, Star True (NotIn [CChar dquote]), lit dquote]"

definition re_squoted :: regex where
  "re_squoted = seqs [lit squote, Star True (NotIn [CChar squote]), lit squote]"

definition re_spaces :: regex where
  "re_spaces = many1 space"

definition normalize_message :: "string \<Rightarrow> string" where
  "normalize_message msg =
     py_strip
       (re_sub re_spaces '' ''
          (re_sub re_number ''<NUM>''
             (re_sub re_squoted (squote # ''<STRING>'' @ [squote])
                (re_sub re_dquoted (dquote # ''<STRING>'' @ [dquote])
                   (re_sub re_path ''<PATH>''
                      (re_sub re_url ''<URL>''
                         (re_sub re_ip ''<IP>''
                            (re_sub re_long_number ''<ID>''
                               (re_sub re_uuid ''<UUID>''
                                  (re_sub re_timestamp ''<TIMESTAMP>'' msg))))))))))"

section \<open>Error patterns\<close>

text \<open>
  The dictionaries that both detectors return: Python builds \<open>first_occurrence\<close> and
  \<open>last_occurrence\<close> as optional values.
\<close>

record pattern_match =
  pattern :: string
  count :: nat
  examples :: "string list"
  severity :: string
  category :: string
  first_occurrence :: "datetime option"
  last_occurrence :: "datetime option"

definition is_error_level :: "log_level option \<Rightarrow> bool" where
  "is_error_level lv = (lv = Some ERROR \<or> lv = Some FATAL \<or> lv = Some CRITICAL)"

text \<open>\<open>[e.timestamp for e in es if e.timestamp]\<close>; a datetime is always true.\<close>

definition timestamps_of :: "log_entry list \<Rightarrow> datetime list" where
  "timestamps_of es = concat (map (\<lambda>e. case timestamp e of None \<Rightarrow> [] | Some t \<Rightarrow> [t]) es)"

text \<open>\<open>d[k].append(v)\<close> on a \<open>defaultdict(list)\<close>, which keeps the order of first insertion.\<close>

fun dict_append :: "('k \<times> 'v list) list \<Rightarrow> 'k \<Rightarrow> 'v \<Rightarrow> ('k \<times> 'v list) list" where
  "dict_append [] k v = [(k, [v])]"
| "dict_append ((k', vs) # d) k v =
     (if k' = k then (k', vs @ [v]) # d else (k', vs) # dict_append d k v)"

subsection \<open>\<open>LogAnalyzer._detect_error_patterns\<close>\<close>

definition error_groups :: "log_entry list \<Rightarrow> (string \<times> log_entry list) list" where
  "error_groups error_entries =
     foldl (\<lambda>d e. dict_append d (normalize_error_message (message e)) e) [] error_entries"

text \<open>
  The loop over the groups. \<open>min\<close> and \<open>max\<close> are applied to the timestamps of the
  group without a test that there is one.
\<close>

fun build_patterns :: "(string \<times> log_entry list) list \<Rightarrow> pyerr + pattern_match list" where
  "build_patterns [] = Inr []"
| "build_patterns ((pat, matching_entries) # rest) =
     (if length matching_entries \<ge> 2 then
        (case dt_min (timestamps_of matching_entries) of
           Inl e \<Rightarrow> Inl e
         | Inr lo \<Rightarrow>
             (case dt_max (timestamps_of matching_entries) of
                Inl e \<Rightarrow> Inl e
              | Inr hi \<Rightarrow>
                  (case build_patterns rest of
                     Inl e \<Rightarrow> Inl e
                   | Inr ps \<Rightarrow>
                       Inr (\<lparr> pattern = pat, count = length matching_entries,
                              examples = map message (take 3 matching_entries),
                              severity = (if length matching_entries > 10 then ''high''
                                          else ''medium''),
                              category = ''error'',
                              first_occurrence = Some lo, last_occurrence = Some hi \<rparr> # ps))))
      else build_patterns rest)"

text \<open>\<open>sorted(xs, key=lambda x: x["count"], reverse=True)\<close>: stable, largest first.\<close>

definition sort_by_count_desc :: "pattern_match list \<Rightarrow> pattern_match list" where
  "sort_by_count_desc ps = sort_key (\<lambda>p. - int (count p)) ps"

definition detect_error_patterns :: "log_entry list \<Rightarrow> pyerr + pattern_match list" where
  "detect_error_patterns entries =
     (let error_entries = filter (\<lambda>e. is_error_level (level e)) entries in
      if error_entries = [] then Inr []
      else
        (case build_patterns (error_groups error_entries) of
           Inl e \<Rightarrow> Inl e
         | Inr patterns \<Rightarrow> Inr (take 10 (sort_by_count_desc patterns))))"

subsection \<open>\<open>PatternDetector._detect_error_patterns\<close>\<close>

text \<open>
  The detector of the class \<open>PatternDetector\<close> does not cluster: it counts, over all
  entries whatever their level, the messages that match each of ten named patterns
  (all with the flag \<open>(?i)\<close>), and grades a pattern by its share of the entries.
\<close>

definition ilits :: "string \<Rightarrow> regex" where
  "ilits w = seqs (map ilit w)"

definition family :: "string list \<Rightarrow> string list \<Rightarrow> regex" where
  "family firsts seconds = seqs [alts (map ilits firsts), Star True Dot, alts (map ilits seconds)]"

definition error_patterns :: "(string \<times> regex) list" where
  "error_patterns =
     [(''connection_error'',
         family [''connection'', ''connect''] [''failed'', ''error'', ''refused'', ''timeout'', ''denied'']),
      (''memory_error'',
         family [''memory'', ''heap'', ''oom'', ''out of memory''] [''error'', ''exception'', ''full'']),
      (''permission_error'',
         family [''permission'', ''access''] [''denied'', ''forbidden'', ''error'']),
      (''file_error'',
         family [''file'', ''directory''] [''not found'', ''missing'', ''error'', ''corrupt'']),
      (''network_error'',
         family [''network'', ''socket'', ''tcp'', ''udp''] [''error'', ''timeout'', ''unreachable'']),
      (''database_error'',
         family [''database'', ''db'', ''sql''] [''error'', ''exception'', ''timeout'', ''deadlock'']),
      (''authentication_error'',
         family [''auth'', ''login'', ''credential''] [''failed'', ''error'', ''invalid'', ''denied'']),
      (''timeout_error'', alts (map ilits [''timeout'', ''timed out'', ''deadline exceeded''])),
      (''null_pointer'',
         family [''null'', ''nil''] [''pointer'', ''reference'', ''exception'', ''error'']),
      (''serialization_error'',
         family [''serialize'', ''deserialize'', ''json'', ''xml''] [''error'', ''exception'', ''failed''])]"

text \<open>\<open>pattern_name.replace("_", " ").title()\<close>.\<close>

fun title_from :: "bool \<Rightarrow> string \<Rightarrow> string" where
  "title_from start [] = []"
| "title_from start (c # cs) =
     (if is_alpha c then (if start then upper_char c else lower_char c) # title_from False cs
      else c # title_from True cs)"

definition title_name :: "string \<Rightarrow> string" where
  "title_name n = title_from True (map (\<lambda>c. if c = CHR ''_'' then CHR '' '' else c) n)"

definition calculate_severity :: "nat \<Rightarrow> nat \<Rightarrow> string" where
  "calculate_severity pattern_count total_entries =
     (let frequency = (if total_entries > 0 then of_nat pattern_count / of_nat total_entries
                       else (0::rat))
      in if frequency > 1 / 10 then ''high''
         else if frequency > 5 / 100 then ''medium''
         else ''low'')"

text \<open>
  The first and last occurrence, as all three detectors of \<open>PatternDetector\<close> compute
  them: absent when no matching entry has a timestamp.
\<close>

definition occurrence_range :: "log_entry list \<Rightarrow> pyerr + (datetime option \<times> datetime option)" where
  "occurrence_range matching_entries =
     (let ts = timestamps_of matching_entries in
      if ts = [] then Inr (None, None)
      else
        (case dt_min ts of
           Inl e \<Rightarrow> Inl e
         | Inr lo \<Rightarrow> (case dt_max ts of Inl e \<Rightarrow> Inl e | Inr hi \<Rightarrow> Inr (Some lo, Some hi))))"

fun family_patterns :: "(string \<times> regex) list \<Rightarrow> log_entry list \<Rightarrow> pyerr + pattern_match list" where
  "family_patterns [] entries = Inr []"
| "family_patterns ((pattern_name, pattern_regex) # rest) entries =
     (let matching_entries = filter (\<lambda>e. re_found pattern_regex (message e)) entries in
      if length matching_entries \<ge> 2 then
        (case occurrence_range matching_entries of
           Inl e \<Rightarrow> Inl e
         | Inr (lo, hi) \<Rightarrow>
             (case family_patterns rest entries of
                Inl e \<Rightarrow> Inl e
              | Inr ps \<Rightarrow>
                  Inr (\<lparr> pattern = title_name pattern_name, count = length matching_entries,
                         examples = map message (take 3 matching_entries),
                         severity = calculate_severity (length matching_entries) (length entries),
                         category = ''error'',
                         first_occurrence = lo, last_occurrence = hi \<rparr> # ps)))
      else family_patterns rest entries)"

definition pd_detect_error_patterns :: "log_entry list \<Rightarrow> pyerr + pattern_match list" where
  "pd_detect_error_patterns entries = family_patterns error_patterns entries"

section \<open>Anomalies (\<open>log_analyzer.py\<close>)\<close>

text \<open>
  An anomaly record. Its \<open>description\<close>, a text that formats a float for display, is
  left out.
\<close>

record anomaly =
  an_type :: string
  an_timestamp :: string
  an_severity :: string
  affected_entries :: nat

text \<open>
  \<open>sorted(ts, key=...)\<close> on datetimes: stable; \<open>TypeError\<close> when naive and aware values
  are mixed. The source sorts the entries by their timestamp and then reads only the
  timestamps.
\<close>

definition dt_sorted :: "datetime list \<Rightarrow> pyerr + datetime list" where
  "dt_sorted ts = (if mixed ts then Inl TypeError else Inr (sort_key instant ts))"

fun time_gaps_of :: "datetime list \<Rightarrow> rat list" where
  "time_gaps_of (a # b # rest) = diff_seconds b a # time_gaps_of (b # rest)"
| "time_gaps_of ts = []"

definition gap_anomalous :: "rat \<Rightarrow> rat \<Rightarrow> bool" where
  "gap_anomalous threshold gap = (gap > threshold \<and> gap > 300)"

definition detect_time_anomalies :: "log_entry list \<Rightarrow> pyerr + anomaly list" where
  "detect_time_anomalies entries =
     (case dt_sorted (timestamps_of entries) of
        Inl e \<Rightarrow> Inl e
      | Inr ts \<Rightarrow>
          if length ts < 10 then Inr []
          else
            let time_gaps = time_gaps_of ts in
            if time_gaps = [] then Inr []
            else
              let avg_gap = sum_list time_gaps / of_nat (length time_gaps);
                  threshold = avg_gap * 10
              in Inr (map (\<lambda>(t, gap). \<lparr> an_type = ''time_gap'', an_timestamp = isoformat t,
                                         an_severity = ''medium'', affected_entries = 0 \<rparr>)
                        (filter (\<lambda>(t, gap). gap_anomalous threshold gap) (zip ts time_gaps))))"

text \<open>
  \<open>d[k] += 1\<close> on a \<open>defaultdict(int)\<close> whose keys are datetimes, compared by \<open>==\<close>.
\<close>

fun dt_bump :: "(datetime \<times> nat) list \<Rightarrow> datetime \<Rightarrow> (datetime \<times> nat) list" where
  "dt_bump [] k = [(k, 1)]"
| "dt_bump ((k', n) # d) k = (if dt_eq k' k then (k', n + 1) # d else (k', n) # dt_bump d k)"

text \<open>\<open>t.replace(minute=0, second=0, microsecond=0)\<close> and the ten-minute key.\<close>

definition hour_key :: "datetime \<Rightarrow> datetime" where
  "hour_key t = t\<lparr> dt_minute := 0, dt_second := 0, dt_micro := 0 \<rparr>"

definition interval_key :: "datetime \<Rightarrow> datetime" where
  "interval_key t = t\<lparr> dt_minute := (dt_minute t div 10) * 10, dt_second := 0, dt_micro := 0 \<rparr>"

definition hourly_counts_of :: "log_entry list \<Rightarrow> (datetime \<times> nat) list" where
  "hourly_counts_of entries = foldl (\<lambda>d t. dt_bump d (hour_key t)) [] (timestamps_of entries)"

definition mean_count :: "(datetime \<times> nat) list \<Rightarrow> rat" where
  "mean_count d = of_nat (sum_list (map snd d)) / of_nat (length d)"

definition detect_volume_anomalies :: "log_entry list \<Rightarrow> anomaly list" where
  "detect_volume_anomalies entries =
     (let hourly_counts = hourly_counts_of entries in
      if length hourly_counts < 3 then []
      else
        let avg_count = mean_count hourly_counts in
        map (\<lambda>(hour, n). \<lparr> an_type = ''volume_spike'', an_timestamp = isoformat hour,
                            an_severity = (if of_nat n > avg_count * 5 then ''medium'' else ''low''),
                            affected_entries = n \<rparr>)
          (filter (\<lambda>(hour, n). of_nat n > avg_count * 3 \<and> n > 100) hourly_counts))"

definition detect_error_spikes :: "log_entry list \<Rightarrow> anomaly list" where
  "detect_error_spikes entries =
     (let error_times = timestamps_of (filter (\<lambda>e. is_error_level (level e)) entries) in
      if length error_times < 10 then []
      else
        let interval_errors = foldl (\<lambda>d t. dt_bump d (interval_key t)) [] error_times in
        if length interval_errors < 3 then []
        else
          let avg_errors = mean_count interval_errors in
          map (\<lambda>(interval, n). \<lparr> an_type = ''error_spike'', an_timestamp = isoformat interval,
                                  an_severity = (if of_nat n > avg_errors * 5 then ''high''
                                                 else ''medium''),
                                  affected_entries = n \<rparr>)
            (filter (\<lambda>(interval, n). of_nat n > avg_errors * 3 \<and> n > 10) interval_errors))"

definition detect_anomalies :: "log_entry list \<Rightarrow> pyerr + anomaly list" where
  "detect_anomalies entries =
     (case (if length entries > 100 then detect_time_anomalies entries else Inr []) of
        Inl e \<Rightarrow> Inl e
      | Inr time_anomalies \<Rightarrow>
          Inr (take 10 (time_anomalies @ detect_volume_anomalies entries
                        @ detect_error_spikes entries)))"

section \<open>The timeline (\<open>log_analyzer.py\<close>)\<close>

definition parse_interval :: "string \<Rightarrow> int" where
  "parse_interval interval =
     (case map_of [(''1m'', 1), (''5m'', 5), (''15m'', 15), (''30m'', 30), (''1h'', 60),
                   (''2h'', 120), (''6h'', 360), (''12h'', 720), (''1d'', 1440)] interval of
        Some m \<Rightarrow> m | None \<Rightarrow> 60)"

definition round_timestamp :: "datetime \<Rightarrow> int \<Rightarrow> datetime" where
  "round_timestamp t interval_minutes =
     (let total_minutes = dt_hour t * 60 + dt_minute t;
          rounded_minutes = (total_minutes div interval_minutes) * interval_minutes
      in t\<lparr> dt_hour := rounded_minutes div 60, dt_minute := rounded_minutes mod 60,
             dt_second := 0, dt_micro := 0 \<rparr>)"

record bucket =
  bucket_timestamp :: string
  error_count :: nat
  warn_count :: nat
  info_count :: nat
  other_count :: nat
  total_count :: nat

text \<open>The counters that one entry adds to its bucket.\<close>

definition count_entry :: "log_level option \<Rightarrow> bucket \<Rightarrow> bucket" where
  "count_entry lv b =
     (if is_error_level lv then b\<lparr> error_count := error_count b + 1, total_count := total_count b + 1 \<rparr>
      else if lv = Some WARN \<or> lv = Some WARNING then
        b\<lparr> warn_count := warn_count b + 1, total_count := total_count b + 1 \<rparr>
      else if lv = Some INFO then
        b\<lparr> info_count := info_count b + 1, total_count := total_count b + 1 \<rparr>
      else b\<lparr> other_count := other_count b + 1, total_count := total_count b + 1 \<rparr>)"

definition empty_bucket :: "string \<Rightarrow> bucket" where
  "empty_bucket k = \<lparr> bucket_timestamp = k, error_count = 0, warn_count = 0, info_count = 0,
                      other_count = 0, total_count = 0 \<rparr>"

text \<open>
  \<open>grouped_data[key][...] += 1\<close> on the \<open>defaultdict\<close>: the bucket of the key is created
  at the end of the dictionary when it is missing.
\<close>

fun add_to_bucket :: "bucket list \<Rightarrow> string \<Rightarrow> log_level option \<Rightarrow> bucket list" where
  "add_to_bucket [] k lv = [count_entry lv (empty_bucket k)]"
| "add_to_bucket (b # bs) k lv =
     (if bucket_timestamp b = k then count_entry lv b # bs else b # add_to_bucket bs k lv)"

definition bucket_key :: "int \<Rightarrow> datetime \<Rightarrow> string" where
  "bucket_key interval_minutes t = isoformat (round_timestamp t interval_minutes)"

fun group_timeline :: "int \<Rightarrow> bucket list \<Rightarrow> log_entry list \<Rightarrow> bucket list" where
  "group_timeline m grouped [] = grouped"
| "group_timeline m grouped (e # es) =
     (case timestamp e of
        None \<Rightarrow> group_timeline m grouped es
      | Some t \<Rightarrow> group_timeline m (add_to_bucket grouped (bucket_key m t) (level e)) es)"

text \<open>
  \<open>get_timeline_data\<close>, as a function of the entries that \<open>process_file\<close> returned.
\<close>

definition get_timeline_data :: "log_entry list \<Rightarrow> string \<Rightarrow> bucket list" where
  "get_timeline_data entries interval =
     (if timestamps_of entries = [] then []
      else sort_key bucket_timestamp (group_timeline (parse_interval interval) [] entries))"

section \<open>An instance of the library parameters\<close>

text \<open>
  \<open>datetime.fromtimestamp\<close> as CPython computes it on 64-bit Linux with the local zone
  UTC: the value is rounded to a microsecond (half to even); a year outside 1..9999 is
  a \<open>ValueError\<close>, a time that the C library cannot break down (its year does not fit
  an \<open>int\<close>) an \<open>OSError\<close>, and a value that does not fit \<open>time_t\<close> an
  \<open>OverflowError\<close>.
\<close>

definition round_half_even :: "rat \<Rightarrow> int" where
  "round_half_even x =
     (let f = floor x; r = x - of_int f
      in if r < 1 / 2 then f
         else if r > 1 / 2 then f + 1
         else if even f then f else f + 1)"

definition utc_fromtimestamp :: "rat \<Rightarrow> pyerr + datetime" where
  "utc_fromtimestamp v =
     (if v \<ge> 2 ^ 63 \<or> v < - (2 ^ 63) then Inl OverflowError
      else if v \<ge> 67768036191676800 \<or> v < - 67768040609740800 then Inl OSError
      else if v \<ge> 253402300800 \<or> v < - 62135596800 then Inl ValueError
      else
        let us = round_half_even (v * 1000000);
            days = us div 86400000000;
            r = us mod 86400000000
        in (case civil_from_days days of (y, m, d) \<Rightarrow>
              if y > 9999 then Inl ValueError
              else
                Inr \<lparr> dt_year = y, dt_month = m, dt_day = d, dt_hour = r div 3600000000,
                      dt_minute = r div 60000000 mod 60, dt_second = r div 1000000 mod 60,
                      dt_micro = r mod 1000000, dt_offset = None \<rparr>))"

text \<open>
  The instance used for closed examples: \<open>fromtimestamp\<close> as above, the validation of
  a \<open>str\<close> field that accepts strings only, and for the remaining parameters the
  simplest functions of their types (a \<open>json.loads\<close> that decodes the empty object and
  the empty array and rejects every other text, a \<open>csv\<close> module that always fails).
  Every theorem below that mentions a library \<open>L\<close> holds for all instances.
\<close>

definition ref_lib :: pylib where
  "ref_lib =
     \<lparr> json_loads = (\<lambda>s. if s = ''{}'' then Inr (JObj [])
                          else if s = ''[]'' then Inr (JArr [])
                          else Inl ''Expecting value''),
       str_of = (\<lambda>j. ''{}''),
       pydantic_str = (\<lambda>j. case j of JStr s \<Rightarrow> Some s | _ \<Rightarrow> None),
       exc_str = (\<lambda>e. []),
       fromtimestamp = utc_fromtimestamp,
       csv_rows = (\<lambda>lines. None),
       csv_dict_rows = (\<lambda>content. None) \<rparr>"

section \<open>Sample entries\<close>

text \<open>Entries for the closed examples below.\<close>

definition sample_entry :: "datetime option \<Rightarrow> log_level option \<Rightarrow> string \<Rightarrow> nat \<Rightarrow> log_entry" where
  "sample_entry ts lv msg n =
     \<lparr> timestamp = ts, level = lv, service = None, message = msg, raw_line = msg,
       line_number = n, metadata = [] \<rparr>"

text \<open>Two \<open>ERROR\<close> entries with the same message and no timestamp.\<close>

definition two_untimed_errors :: "log_entry list" where
  "two_untimed_errors =
     [sample_entry None (Some ERROR) ''disk full'' 1, sample_entry None (Some ERROR) ''disk full'' 2]"

text \<open>
  Twelve entries, as the JSON parser builds them for twelve lines: nine \<open>INFO\<close> entries
  and three \<open>ERROR\<close> entries whose messages differ only by a number of seven digits and
  a UUID. With \<open>timed\<close> the entries carry timestamps one second apart, without it none
  has a timestamp.
\<close>

definition clock :: "int \<Rightarrow> datetime" where
  "clock i = \<lparr> dt_year = 2024, dt_month = 1, dt_day = 1, dt_hour = 10, dt_minute = 0,
               dt_second = i, dt_micro = 0, dt_offset = None \<rparr>"

definition scenario_lines :: "(log_level \<times> string) list" where
  "scenario_lines =
     [(INFO, ''request served''),
      (INFO, ''request served''),
      (INFO, ''request served''),
      (ERROR, ''Connection failed for order 1234567 session 550e8400-e29b-41d4-a716-446655440000''),
      (INFO, ''request served''),
      (INFO, ''request served''),
      (ERROR, ''Connection failed for order 7654321 session 123e4567-e89b-12d3-a456-426614174000''),
      (INFO, ''request served''),
      (INFO, ''request served''),
      (ERROR, ''Connection failed for order 1000001 session 00000000-0000-4000-8000-000000000001''),
      (INFO, ''request served''),
      (INFO, ''request served'')]"

definition scenario :: "bool \<Rightarrow> log_entry list" where
  "scenario timed =
     map (\<lambda>(i, lv, msg). sample_entry (if timed then Some (clock (int i)) else None) (Some lv) msg i)
       (enumerate_from 1 scenario_lines)"

section \<open>Notions of the specification\<close>

text \<open>
  The cluster of a normalized message, in the words of the specification: the entries
  whose level is \<open>ERROR\<close>, \<open>FATAL\<close> or \<open>CRITICAL\<close> and whose normalized message is the
  given text.
\<close>

definition cluster :: "log_entry list \<Rightarrow> string \<Rightarrow> log_entry list" where
  "cluster entries k =
     filter (\<lambda>e. is_error_level (level e) \<and> normalize_error_message (message e) = k) entries"

text \<open>The label, size and grade of a group: \<open>high\<close> above ten members, else \<open>medium\<close>.\<close>

definition graded :: "string \<times> log_entry list \<Rightarrow> string \<times> nat \<times> string" where
  "graded g = (fst g, length (snd g), if length (snd g) > 10 then ''high'' else ''medium'')"

text \<open>Three lines, each the empty JSON object.\<close>

definition three_objects :: string where
  "three_objects = ''{}'' @ [newline] @ ''{}'' @ [newline] @ ''{}''"

text \<open>
  The non-blank source lines, in the words of the specification: the lines of the content
  (split at newlines) that are not empty after \<open>strip()\<close>; and the numbered lines the
  parsers keep.
\<close>

definition count_nonblank :: "string list \<Rightarrow> nat" where
  "count_nonblank ls = length (filter (\<lambda>l. py_strip l \<noteq> []) ls)"




text \<open>A fallback entry: level \<open>INFO\<close> and a reason under \<open>parse_error\<close>.\<close>

definition is_fallback :: "log_entry \<Rightarrow> bool" where
  "is_fallback e = (level e = Some INFO \<and> map_of (metadata e) ''parse_error'' \<noteq> None)"

text \<open>Four lines: an object, a blank line, a text that is no JSON, and an array.\<close>

definition mixed_json_lines :: string where
  "mixed_json_lines = ''{}'' @ [newline, newline] @ ''not json'' @ [newline] @ ''[]''"

text \<open>An entry falls into the bucket \<open>k\<close>: it has a timestamp whose rounded ISO key is \<open>k\<close>.\<close>

definition in_bucket :: "int \<Rightarrow> string \<Rightarrow> log_entry \<Rightarrow> bool" where
  "in_bucket m k e = (case timestamp e of None \<Rightarrow> False | Some t \<Rightarrow> bucket_key m t = k)"

text \<open>
  What holds of the buckets after the entries \<open>seen\<close> have been counted: the keys are
  distinct, every bucket's total is the sum of its four counters and the number of the
  entries that fall into it, every timestamped entry has its bucket, and the totals add
  up to the number of timestamped entries.
\<close>

definition counted :: "int \<Rightarrow> bucket list \<Rightarrow> log_entry list \<Rightarrow> bool" where
  "counted m g seen =
     (distinct (map bucket_timestamp g)
      \<and> (\<forall>b\<in>set g. total_count b = error_count b + warn_count b + info_count b + other_count b
            \<and> total_count b = length (filter (in_bucket m (bucket_timestamp b)) seen))
      \<and> (\<forall>e\<in>set seen. \<forall>t. timestamp e = Some t \<longrightarrow> bucket_key m t \<in> bucket_timestamp ` set g)
      \<and> sum_list (map total_count g) = length (timestamps_of seen))"

text \<open>
  Four entries for the timeline: a warning at 11:00:10, an error at 10:59:30, an entry
  without timestamp and an entry without level at 10:05:00.
\<close>

definition at_time :: "int \<Rightarrow> int \<Rightarrow> int \<Rightarrow> datetime" where
  "at_time h mi s = \<lparr> dt_year = 2024, dt_month = 1, dt_day = 1, dt_hour = h, dt_minute = mi,
                      dt_second = s, dt_micro = 0, dt_offset = None \<rparr>"

definition timeline_sample :: "log_entry list" where
  "timeline_sample =
     [sample_entry (Some (at_time 11 0 10)) (Some WARN) ''slow'' 1,
      sample_entry (Some (at_time 10 59 30)) (Some ERROR) ''failed'' 2,
      sample_entry None (Some INFO) ''started'' 3,
      sample_entry (Some (at_time 10 5 0)) None ''hello'' 4]"





section \<open>Characters that a pattern requires\<close>

text \<open>
  \<open>requires P r\<close>: every text that \<open>r\<close> matches contains a character with the property
  \<open>P\<close>. It is a syntactic, sufficient test: some mandatory single-character step of \<open>r\<close>
  accepts only characters with \<open>P\<close>. A subject without such characters cannot match.
\<close>

definition chars_between :: "char \<Rightarrow> char \<Rightarrow> string" where
  "chars_between a b = map char_of [of_char a ..< Suc (of_char b)]"

fun item_within :: "(char \<Rightarrow> bool) \<Rightarrow> citem \<Rightarrow> bool" where
  "item_within P (CChar a) = P a"
| "item_within P (CRange a b) = list_all P (chars_between a b)"
| "item_within P CDigit = list_all P (chars_between (CHR ''0'') (CHR ''9''))"
| "item_within P CWord = False"
| "item_within P CSpace = False"

fun cset_within :: "(char \<Rightarrow> bool) \<Rightarrow> cset \<Rightarrow> bool" where
  "cset_within P (In is) = list_all (item_within P) is"
| "cset_within P (NotIn is) = False"
| "cset_within P Dot = False"

fun requires :: "(char \<Rightarrow> bool) \<Rightarrow> regex \<Rightarrow> bool" where
  "requires P (Ch cs) = cset_within P cs"
| "requires P (Seq a b) = (requires P a \<or> requires P b)"
| "requires P (Alt a b) = (requires P a \<and> requires P b)"
| "requires P (Grp n r) = requires P r"
| "requires P r = False"

subsection \<open>Readings of a timestamp text\<close>

text \<open>A text of decimal digits only.\<close>

definition pure_digits :: "string \<Rightarrow> bool" where
  "pure_digits s = (s \<noteq> [] \<and> list_all is_digit s)"

text \<open>
  The reading by order of magnitude alone: above \<open>1e13\<close> microseconds, above \<open>1e10\<close>
  milliseconds, otherwise seconds.
\<close>

definition threshold_reading :: "pylib \<Rightarrow> int \<Rightarrow> pyerr + datetime" where
  "threshold_reading L n =
     (if n > 10 ^ 13 then fromtimestamp L (of_int n / 1000000)
      else if n > 10 ^ 10 then fromtimestamp L (of_int n / 1000)
      else fromtimestamp L (of_int n))"

text \<open>What the pure-digit branch makes of a conversion: its \<open>except\<close> clause gives absent.\<close>

definition caught :: "pyerr + datetime \<Rightarrow> pyerr + datetime option" where
  "caught r =
     (case r of
        Inr t \<Rightarrow> Inr (Some t)
      | Inl e \<Rightarrow> if e = ValueError \<or> e = OverflowError then Inr None else Inl e)"

text \<open>
  A text that matches no format of the extractor: no \<open>strptime\<close> format parses it and
  \<open>float\<close> rejects it.
\<close>

definition no_format :: "string \<Rightarrow> bool" where
  "no_format s =
     (try_formats timestamp_formats (py_strip s) = None \<and> py_float (py_strip s) = None)"

definition iso_example :: datetime where
  "iso_example = \<lparr> dt_year = 2024, dt_month = 8, dt_day = 24, dt_hour = 15, dt_minute = 30,
                    dt_second = 0, dt_micro = 0, dt_offset = None \<rparr>"

section \<open>Properties\<close>

text \<open>
  C3. The service extractor on the line \<open>[ERROR] something failed\<close>: the bracketed token
  \<open>ERROR\<close> is on the stoplist and is rejected, no other pattern matches, and the
  extractor then falls through to the cleaned line and returns
  \<open>ERRORsomethingfailed\<close>, not the absent value the specification promises.
\<close>

theorem extract_service_stoplisted_bracket:
  "extract_service (Some ''[ERROR] something failed'') = Some ''ERRORsomethingfailed''"
  by code_simp

subsection \<open>Blank lines and blank content\<close>

lemma dropWhile_all_iff: "(\<forall>x\<in>set (dropWhile P s). P x) \<longleftrightarrow> (\<forall>x\<in>set s. P x)"
  by (induction s) auto

lemma py_strip_blank: "py_strip s = [] \<longleftrightarrow> list_all is_space s"
  by (simp add: py_strip_def dropWhile_eq_Nil_conv dropWhile_all_iff list_all_iff)

text \<open>
  C5. For empty or whitespace-only content, \<open>process_content\<close> (the operation \<open>parse\<close> of
  the specification: content and file name in, entries and format out) returns no
  entries and the default format \<open>PLAIN_TEXT\<close>; it does not raise, whatever the library
  and the file name.
\<close>

theorem process_content_blank:
  "list_all is_space content \<Longrightarrow> process_content L content filename = Inr ([], PLAIN_TEXT)"
  by (simp add: process_content_def py_strip_blank)

theorem process_content_blank_witness:
  "list_all is_space [CHR '' '', newline, CHR 0x09]
   \<and> process_content ref_lib [CHR '' '', newline, CHR 0x09] ''app.json'' = Inr ([], PLAIN_TEXT)"
  using process_content_blank [of "[CHR '' '', newline, CHR 0x09]" ref_lib "''app.json''"]
  by (simp add: is_space_def newline_def)

text \<open>
  The file-based entry point \<open>process_file\<close> treats the same content as an error: it
  raises \<open>LogParsingError\<close>.
\<close>

lemma process_file_blank:
  "list_all is_space content \<Longrightarrow>
     process_file L content path = Inl (LogParsingError ''File is empty or contains only whitespace'')"
  by (simp add: process_file_def py_strip_blank)

subsection \<open>Grouping by normalized message\<close>

lemma map_of_dict_append:
  "map_of (dict_append d k v) = (map_of d)(k \<mapsto> (case map_of d k of None \<Rightarrow> [v] | Some vs \<Rightarrow> vs @ [v]))"
  by (induction d) (auto simp: fun_eq_iff)

lemma keys_dict_append:
  "x \<in> fst ` set (dict_append d k v) \<longleftrightarrow> x = k \<or> x \<in> fst ` set d"
  by (induction d) force+

lemma distinct_dict_append:
  "distinct (map fst d) \<Longrightarrow> distinct (map fst (dict_append d k v))"
proof (induction d)
  case Nil
  then show ?case by simp
next
  case (Cons a d)
  obtain k' vs where a: "a = (k', vs)" by (cases a)
  show ?case
  proof (cases "k' = k")
    case True
    with Cons a show ?thesis by simp
  next
    case False
    have "k' \<notin> fst ` set (dict_append d k v)"
      using Cons.prems a False by (simp add: keys_dict_append)
    with Cons a False show ?thesis by simp
  qed
qed

lemma error_groups_snoc:
  "error_groups (es @ [e]) = dict_append (error_groups es) (normalize_error_message (message e)) e"
  by (simp add: error_groups_def)

lemma distinct_error_groups: "distinct (map fst (error_groups es))"
proof (induction es rule: rev_induct)
  case Nil
  then show ?case by (simp add: error_groups_def)
next
  case (snoc e es)
  then show ?case by (simp add: error_groups_snoc distinct_dict_append)
qed

lemma map_of_error_groups:
  "map_of (error_groups es) k =
     (if \<exists>e\<in>set es. normalize_error_message (message e) = k
      then Some (filter (\<lambda>e. normalize_error_message (message e) = k) es) else None)"
proof (induction es rule: rev_induct)
  case Nil
  then show ?case by (simp add: error_groups_def)
next
  case (snoc e es)
  then show ?case
    by (auto simp: error_groups_snoc map_of_dict_append filter_empty_conv)
qed

lemma error_groups_member:
  "(k, ms) \<in> set (error_groups es) \<longleftrightarrow>
     ms \<noteq> [] \<and> ms = filter (\<lambda>e. normalize_error_message (message e) = k) es"
proof -
  have "(k, ms) \<in> set (error_groups es) \<longleftrightarrow> map_of (error_groups es) k = Some ms"
    using distinct_error_groups by simp
  then show ?thesis
    by (auto simp: map_of_error_groups filter_empty_conv)
qed

lemma build_patterns_raises:
  "(k, ms) \<in> set gs \<Longrightarrow> 2 \<le> length ms \<Longrightarrow> timestamps_of ms = [] \<Longrightarrow>
     \<exists>err. build_patterns gs = Inl err"
proof (induction gs)
  case Nil
  then show ?case by simp
next
  case (Cons g gs)
  obtain k' ms' where g: "g = (k', ms')" by (cases g)
  show ?case
  proof (cases "(k, ms) = g")
    case True
    with Cons.prems g show ?thesis by (simp add: dt_min_def)
  next
    case False
    with Cons obtain err where "build_patterns gs = Inl err" by auto
    then show ?thesis
      by (auto simp: g split: sum.splits)
  qed
qed

lemma timestamps_of_empty: "timestamps_of es = [] \<longleftrightarrow> (\<forall>e\<in>set es. timestamp e = None)"
  by (induction es) (auto simp: timestamps_of_def split: option.splits)

text \<open>
  C1. Error-pattern clustering, as \<open>analyze_file\<close> runs it, does raise for a data-quality
  reason: whenever at least two \<open>ERROR\<close>, \<open>FATAL\<close> or \<open>CRITICAL\<close> entries share a
  normalized message and none of the entries of that group has a timestamp, the function
  raises (\<open>min\<close> of an empty sequence) instead of returning a pattern whose first and
  last occurrence are absent.
\<close>

theorem detect_error_patterns_raises:
  assumes "2 \<le> length (filter (\<lambda>e. is_error_level (level e)
                                   \<and> normalize_error_message (message e) = pat) entries)"
    and "\<forall>e\<in>set entries. is_error_level (level e) \<and> normalize_error_message (message e) = pat
           \<longrightarrow> timestamp e = None"
  shows "\<exists>err. detect_error_patterns entries = Inl err"
proof -
  define es where "es = filter (\<lambda>e. is_error_level (level e)) entries"
  define ms where "ms = filter (\<lambda>e. normalize_error_message (message e) = pat) es"
  have ms: "ms = filter (\<lambda>e. is_error_level (level e)
                 \<and> normalize_error_message (message e) = pat) entries"
    by (simp add: ms_def es_def conj_commute)
  with assms(1) have len: "2 \<le> length ms" by simp
  then have "ms \<noteq> []" by auto
  then have mem: "(pat, ms) \<in> set (error_groups es)"
    by (simp add: error_groups_member ms_def)
  have "timestamps_of ms = []"
    using assms(2) by (auto simp: timestamps_of_empty ms)
  with mem len obtain err where "build_patterns (error_groups es) = Inl err"
    using build_patterns_raises by blast
  moreover have "es \<noteq> []" using \<open>ms \<noteq> []\<close> by (auto simp: ms_def)
  ultimately show ?thesis
    by (simp add: detect_error_patterns_def es_def)
qed

theorem detect_error_patterns_raises_witness:
  "\<exists>err. detect_error_patterns two_untimed_errors = Inl err"
proof -
  have n: "normalize_error_message ''disk full'' = ''disk full''"
    by code_simp
  show ?thesis
    using detect_error_patterns_raises [of "''disk full''" two_untimed_errors]
    by (simp add: two_untimed_errors_def sample_entry_def is_error_level_def n)
qed

text \<open>The exception is the \<open>ValueError\<close> of \<open>min\<close>.\<close>

lemma detect_error_patterns_two_untimed:
  "detect_error_patterns two_untimed_errors = Inl ValueError"
  by code_simp

text \<open>
  The detectors of \<open>PatternDetector\<close> guard the same computation: with no timestamp in
  the group, first and last occurrence are absent.
\<close>

lemma occurrence_range_untimed:
  "timestamps_of ms = [] \<Longrightarrow> occurrence_range ms = Inr (None, None)"
  by (simp add: occurrence_range_def)

subsection \<open>Error-pattern clustering\<close>

lemma build_patterns_Inr:
  "build_patterns gs = Inr ps \<Longrightarrow>
     map (\<lambda>p. (pattern p, count p, severity p)) ps
       = map graded (filter (\<lambda>g. 2 \<le> length (snd g)) gs)"
proof (induction gs arbitrary: ps)
  case Nil
  then show ?case by simp
next
  case (Cons g gs)
  obtain k ms where g: "g = (k, ms)" by (cases g)
  show ?case
  proof (cases "2 \<le> length ms")
    case True
    with Cons.prems g obtain lo hi ps' where
      ps': "build_patterns gs = Inr ps'" and
      ps: "ps = \<lparr> pattern = k, count = length ms, examples = map message (take 3 ms),
                  severity = (if length ms > 10 then ''high'' else ''medium''),
                  category = ''error'', first_occurrence = Some lo, last_occurrence = Some hi \<rparr> # ps'"
      by (auto split: sum.splits)
    from Cons.IH [OF ps'] show ?thesis
      using True by (simp add: g ps graded_def)
  next
    case False
    with Cons g show ?thesis by simp
  qed
qed

lemma sorted_take_drop:
  "sorted (map f xs) \<Longrightarrow> x \<in> set (take n xs) \<Longrightarrow> y \<in> set (drop n xs) \<Longrightarrow> f x \<le> f y"
proof -
  assume s: "sorted (map f xs)" and x: "x \<in> set (take n xs)" and y: "y \<in> set (drop n xs)"
  have "map f xs = map f (take n xs) @ map f (drop n xs)"
    by (simp flip: map_append)
  with s have "sorted (map f (take n xs) @ map f (drop n xs))" by simp
  then show ?thesis using x y by (auto simp: sorted_append)
qed

lemma top_of_sorted:
  assumes "q \<in> set xs" "q \<notin> set (take n (sort_key f xs))"
  shows "length (take n (sort_key f xs)) = n \<and> (\<forall>p\<in>set (take n (sort_key f xs)). f p \<le> f q)"
proof -
  let ?s = "sort_key f xs"
  have "q \<in> set ?s" using assms(1) by simp
  then have "q \<in> set (take n ?s) \<union> set (drop n ?s)"
    by (metis append_take_drop_id set_append)
  with assms(2) have d: "q \<in> set (drop n ?s)" by simp
  then have "n < length ?s" by (cases "n < length ?s") auto
  then have "length (take n ?s) = n" by simp
  moreover have "\<forall>p\<in>set (take n ?s). f p \<le> f q"
    using sorted_take_drop [of f ?s _ n q] d by simp
  ultimately show ?thesis by simp
qed

lemma cluster_group:
  "cluster entries k = filter (\<lambda>e. normalize_error_message (message e) = k)
                         (filter (\<lambda>e. is_error_level (level e)) entries)"
  by (simp add: cluster_def conj_commute)

text \<open>
  C6, as amended. Whenever \<open>LogAnalyzer._detect_error_patterns\<close> returns, its result has
  at most ten patterns in descending order of count, with distinct labels; every pattern
  is the cluster of its label (the \<open>ERROR\<close>, \<open>FATAL\<close> and \<open>CRITICAL\<close> entries with that
  normalized message), has at least two members and is graded \<open>high\<close> exactly when it
  has more than ten; and every cluster of at least two members is reported unless ten
  patterns at least as large are.
\<close>

theorem detect_error_patterns_clusters:
  assumes "detect_error_patterns entries = Inr ps"
  shows "length ps \<le> 10
    \<and> sorted (map (\<lambda>p. - int (count p)) ps)
    \<and> distinct (map pattern ps)
    \<and> (\<forall>p\<in>set ps. count p = length (cluster entries (pattern p)) \<and> 2 \<le> count p
          \<and> severity p = (if count p > 10 then ''high'' else ''medium''))
    \<and> (\<forall>k. 2 \<le> length (cluster entries k) \<longrightarrow>
          (\<exists>p\<in>set ps. pattern p = k)
          \<or> (length ps = 10 \<and> (\<forall>p\<in>set ps. length (cluster entries k) \<le> count p)))"
proof (cases "filter (\<lambda>e. is_error_level (level e)) entries = []")
  case True
  then have "cluster entries k = []" for k by (simp add: cluster_group)
  moreover from True assms have "ps = []" by (simp add: detect_error_patterns_def)
  ultimately show ?thesis by simp
next
  case False
  define es where "es = filter (\<lambda>e. is_error_level (level e)) entries"
  from False assms obtain all where
    all: "build_patterns (error_groups es) = Inr all" and
    ps: "ps = take 10 (sort_by_count_desc all)"
    by (auto simp: detect_error_patterns_def es_def split: sum.splits)
  let ?f = "\<lambda>p. - int (count p)"
  let ?gs = "filter (\<lambda>g. 2 \<le> length (snd g)) (error_groups es)"
  have m: "map (\<lambda>p. (pattern p, count p, severity p)) all = map graded ?gs"
    by (rule build_patterns_Inr [OF all])
  have sub: "set ps \<subseteq> set all"
    using ps by (auto simp: sort_by_count_desc_def dest: in_set_takeD)
  have pat: "map pattern all = map fst ?gs"
  proof -
    have "map pattern all = map fst (map (\<lambda>p. (pattern p, count p, severity p)) all)"
      by (simp add: comp_def)
    also have "\<dots> = map fst ?gs" by (simp add: m graded_def comp_def)
    finally show ?thesis .
  qed
  have each: "count p = length (cluster entries (pattern p)) \<and> 2 \<le> count p
          \<and> severity p = (if count p > 10 then ''high'' else ''medium'')" if "p \<in> set all" for p
  proof -
    from that have "(pattern p, count p, severity p) \<in> set (map graded ?gs)"
      by (simp flip: m)
    then obtain k ms where g: "(k, ms) \<in> set (error_groups es)" "2 \<le> length ms"
      and eq: "(pattern p, count p, severity p) = graded (k, ms)"
      by auto
    from g(1) have "ms = cluster entries k"
      by (simp add: error_groups_member cluster_group es_def)
    with eq g(2) show ?thesis by (simp add: graded_def)
  qed
  have c1: "length ps \<le> 10" by (simp add: ps)
  have c2: "sorted (map ?f ps)"
  proof -
    have "sorted (map ?f (sort_key ?f all))" by simp
    then show ?thesis
      unfolding ps sort_by_count_desc_def by (simp add: take_map [symmetric] sorted_wrt_take)
  qed
  have c3: "distinct (map pattern ps)"
  proof -
    have "distinct (map fst ?gs)"
      using distinct_error_groups [of es] by (simp add: distinct_map_filter)
    then have "distinct (map pattern all)" by (simp add: pat)
    then have "distinct (map pattern (sort_key ?f all))"
      by (simp add: distinct_map)
    then show ?thesis
      unfolding ps sort_by_count_desc_def by (simp add: take_map [symmetric] distinct_take)
  qed
  have c4: "\<forall>p\<in>set ps. count p = length (cluster entries (pattern p)) \<and> 2 \<le> count p
          \<and> severity p = (if count p > 10 then ''high'' else ''medium'')"
    using each sub by blast
  have c5: "(\<exists>p\<in>set ps. pattern p = k)
          \<or> (length ps = 10 \<and> (\<forall>p\<in>set ps. length (cluster entries k) \<le> count p))"
    if k: "2 \<le> length (cluster entries k)" for k
  proof -
    let ?ms = "cluster entries k"
    from k have "?ms \<noteq> []" by auto
    then have "(k, ?ms) \<in> set (error_groups es)"
      by (simp add: error_groups_member cluster_group es_def)
    with k have "(k, ?ms) \<in> set ?gs" by simp
    then have "k \<in> set (map fst ?gs)" by force
    then have "k \<in> set (map pattern all)" by (simp add: pat)
    then obtain q where q: "q \<in> set all" "pattern q = k" by auto
    show ?thesis
    proof (cases "q \<in> set ps")
      case True
      with q show ?thesis by blast
    next
      case False
      then have "q \<notin> set (take 10 (sort_key ?f all))"
        by (simp add: ps sort_by_count_desc_def)
      from top_of_sorted [OF q(1) this]
      have "length ps = 10" and le: "\<forall>p\<in>set ps. ?f p \<le> ?f q"
        by (simp_all add: ps sort_by_count_desc_def)
      moreover have "count q = length ?ms" using each [OF q(1)] q(2) by simp
      ultimately show ?thesis by auto
    qed
  qed
  from c1 c2 c3 c4 c5 show ?thesis by blast
qed

text \<open>
  The scenario of the specification, with timestamps: one pattern of count 3, graded
  \<open>medium\<close>.
\<close>

lemma scenario_timed_patterns:
  "detect_error_patterns (scenario True) =
     Inr [\<lparr> pattern = ''Connection failed for order ID session UUID'', count = 3,
             examples =
               [''Connection failed for order 1234567 session 550e8400-e29b-41d4-a716-446655440000'',
                ''Connection failed for order 7654321 session 123e4567-e89b-12d3-a456-426614174000'',
                ''Connection failed for order 1000001 session 00000000-0000-4000-8000-000000000001''],
             severity = ''medium'', category = ''error'',
             first_occurrence = Some (clock 4), last_occurrence = Some (clock 10) \<rparr>]"
  by code_simp

theorem detect_error_patterns_clusters_witness:
  "\<exists>p. detect_error_patterns (scenario True) = Inr [p]
       \<and> pattern p = ''Connection failed for order ID session UUID''
       \<and> count p = 3 \<and> severity p = ''medium''
       \<and> count p = length (cluster (scenario True) (pattern p))"
proof -
  let ?p = "\<lparr> pattern = ''Connection failed for order ID session UUID'', count = 3,
             examples =
               [''Connection failed for order 1234567 session 550e8400-e29b-41d4-a716-446655440000'',
                ''Connection failed for order 7654321 session 123e4567-e89b-12d3-a456-426614174000'',
                ''Connection failed for order 1000001 session 00000000-0000-4000-8000-000000000001''],
             severity = ''medium'', category = ''error'',
             first_occurrence = Some (clock 4), last_occurrence = Some (clock 10) \<rparr>"
  have "count ?p = length (cluster (scenario True) (pattern ?p))"
    using detect_error_patterns_clusters [OF scenario_timed_patterns] by simp
  then show ?thesis
    using scenario_timed_patterns by (intro exI [of _ ?p]) simp
qed

text \<open>
  The claim as stated fails on both detectors. Without timestamps the clustering of
  \<open>LogAnalyzer\<close> raises on the scenario (the defect of C1), and the detector of the class
  \<open>PatternDetector\<close>, which matches keyword families and grades by frequency, reports
  the three entries (3 of 12) as \<open>high\<close>.
\<close>

theorem error_pattern_clustering_counterexample:
  "detect_error_patterns (scenario False) = Inl ValueError
   \<and> pd_detect_error_patterns (scenario True) =
     Inr [\<lparr> pattern = ''Connection Error'', count = 3,
             examples =
               [''Connection failed for order 1234567 session 550e8400-e29b-41d4-a716-446655440000'',
                ''Connection failed for order 7654321 session 123e4567-e89b-12d3-a456-426614174000'',
                ''Connection failed for order 1000001 session 00000000-0000-4000-8000-000000000001''],
             severity = ''high'', category = ''error'',
             first_occurrence = Some (clock 4), last_occurrence = Some (clock 10) \<rparr>]"
  by code_simp

subsection \<open>Format detection\<close>

lemma best_of_max:
  "best_of b xs \<in> set (b # xs) \<and> (\<forall>x\<in>set (b # xs). snd x \<le> snd (best_of b xs))"
proof (induction xs arbitrary: b)
  case Nil
  then show ?case by simp
next
  case (Cons x xs)
  let ?b = "if snd b < snd x then x else b"
  from Cons [of ?b] show ?case by (auto split: if_splits)
qed

lemma best_of_first: "\<forall>x\<in>set xs. snd x \<le> snd b \<Longrightarrow> best_of b xs = b"
  by (induction xs arbitrary: b) auto

lemma py_strip_nonblank: "py_strip l \<noteq> [] \<Longrightarrow> py_strip (py_strip l) \<noteq> []"
proof -
  assume "py_strip l \<noteq> []"
  then have "\<not> (\<forall>x\<in>set l. is_space x)" by (simp add: py_strip_blank list_all_iff)
  then have "\<not> (\<forall>x\<in>set (py_strip l). is_space x)"
    by (simp add: py_strip_def dropWhile_all_iff)
  then show ?thesis by (simp add: py_strip_blank list_all_iff)
qed

lemma nonblank_lines_nonblank: "l \<in> set (nonblank_lines content) \<Longrightarrow> py_strip l \<noteq> []"
  by (auto simp: nonblank_lines_def py_strip_nonblank)

lemma score_csv_le: "score_csv_format L lines \<le> 1"
  by (simp add: score_csv_format_def Let_def split: option.splits list.splits)

lemma score_syslog_le: "score_syslog_format lines \<le> 1"
proof (cases "lines = []")
  case True
  then show ?thesis by (simp add: score_syslog_format_def)
next
  case False
  let ?m = "length (filter (\<lambda>l. list_ex (\<lambda>r. re_found r l) syslog_score_patterns) (take 20 lines))"
  have "?m \<le> length (take 20 lines)" by (rule length_filter_le)
  then have le: "?m \<le> min (length lines) 20" by simp
  have pos: "0 < min (length lines) 20" using False by simp
  have "(of_nat ?m :: rat) \<le> of_nat (min (length lines) 20)"
    using le of_nat_le_iff by blast
  then have "(of_nat ?m :: rat) / of_nat (min (length lines) 20) \<le> 1"
    using pos by (simp add: divide_le_eq_1)
  with False show ?thesis by (simp add: score_syslog_format_def Let_def)
qed

lemma sum_list_le_length:
  fixes f :: "'a \<Rightarrow> rat"
  shows "(\<forall>x\<in>set xs. f x \<le> 1) \<Longrightarrow> sum_list (map f xs) \<le> of_nat (length xs)"
  by (induction xs) (auto simp: add_mono)

lemma score_structured_le: "score_structured_format lines \<le> 1"
proof (cases "lines = []")
  case True
  then show ?thesis by (simp add: score_structured_format_def)
next
  case False
  have "sum_list (map line_score (take 20 lines)) \<le> of_nat (length (take 20 lines))"
    by (rule sum_list_le_length) (simp add: line_score_def)
  then have le: "sum_list (map line_score (take 20 lines)) \<le> of_nat (min (length lines) 20)"
    by simp
  have pos: "(0::rat) < of_nat (min (length lines) 20)" using False by simp
  have "sum_list (map line_score (take 20 lines)) / of_nat (min (length lines) 20) \<le> 1"
    using le pos by (simp add: divide_le_eq_1)
  with False show ?thesis by (simp add: score_structured_format_def)
qed

lemma score_json_all:
  assumes "lines \<noteq> []" "\<forall>l\<in>set lines. py_strip l \<noteq> [] \<and> is_json_object L l"
  shows "score_json_format L lines = 1"
proof -
  have "filter (\<lambda>l. py_strip l \<noteq> []) lines = lines" using assms(2) by simp
  moreover have "filter (\<lambda>l. py_strip l \<noteq> [] \<and> is_json_object L l) lines = lines"
    using assms(2) by simp
  ultimately show ?thesis using assms(1) by (simp add: score_json_format_def)
qed

text \<open>
  C7. For content with at least three non-blank lines, the detector scores the sample
  (the first 100 non-blank lines): the winner is a family of maximal score, the result is
  plain text at confidence 0.5 when the winner is JSON, CSV or syslog with a score below
  its threshold (0.7, 0.8, 0.6) and the winner with its score otherwise; and when every
  sampled line decodes to a JSON object, the result is JSON with a confidence of at
  least 0.7. (With fewer than three non-blank lines the detector does not score: it
  answers from the file extension.)
\<close>

theorem detect_log_format_scored:
  assumes "minimum_lines \<le> length (nonblank_lines content)"
  shows "(let sample = take (min 100 (length (nonblank_lines content))) (nonblank_lines content);
              winner = fst (best_format L sample);
              score = snd (best_format L sample)
          in (winner, score) \<in> set (format_scores L sample)
             \<and> (\<forall>x\<in>set (format_scores L sample). snd x \<le> score)
             \<and> detect_log_format L content filename =
                 (if (winner = JSON \<and> score < 7 / 10) \<or> (winner = CSV \<and> score < 8 / 10)
                     \<or> (winner = SYSLOG \<and> score < 6 / 10)
                  then (PLAIN_TEXT, 1 / 2) else (winner, score))
             \<and> ((\<forall>l\<in>set sample. is_json_object L l) \<longrightarrow>
                   fst (detect_log_format L content filename) = JSON
                   \<and> snd (detect_log_format L content filename) \<ge> 7 / 10))"
proof -
  define sample where "sample = take (min 100 (length (nonblank_lines content))) (nonblank_lines content)"
  define winner where "winner = fst (best_format L sample)"
  define score where "score = snd (best_format L sample)"
  have b: "best_format L sample = (winner, score)" by (simp add: winner_def score_def)
  have mx: "(winner, score) \<in> set (format_scores L sample)
      \<and> (\<forall>x\<in>set (format_scores L sample). snd x \<le> score)"
    using best_of_max [of "(JSON, score_json_format L sample)" "other_scores L sample"]
    unfolding winner_def score_def best_format_def format_scores_def by simp
  have det: "detect_log_format L content filename = apply_thresholds (winner, score)"
    using assms by (simp add: detect_log_format_def Let_def sample_def b [symmetric])
  have rule: "detect_log_format L content filename =
      (if (winner = JSON \<and> score < 7 / 10) \<or> (winner = CSV \<and> score < 8 / 10)
          \<or> (winner = SYSLOG \<and> score < 6 / 10)
       then (PLAIN_TEXT, 1 / 2) else (winner, score))"
    by (auto simp: det apply_thresholds_def json_confidence_def csv_confidence_def
        syslog_confidence_def)
  have js: "fst (detect_log_format L content filename) = JSON
      \<and> snd (detect_log_format L content filename) \<ge> 7 / 10"
    if all: "\<forall>l\<in>set sample. is_json_object L l"
  proof -
    have ne: "sample \<noteq> []" using assms by (auto simp: sample_def minimum_lines_def)
    have "\<forall>l\<in>set sample. py_strip l \<noteq> []"
      by (auto simp: sample_def dest: in_set_takeD nonblank_lines_nonblank)
    with all ne have one: "score_json_format L sample = 1" by (simp add: score_json_all)
    have "\<forall>x\<in>set (other_scores L sample). snd x \<le> 1"
      by (simp add: other_scores_def score_csv_le score_syslog_le score_structured_le)
    then have "best_format L sample = (JSON, 1)"
      by (simp add: best_format_def one best_of_first)
    then have "winner = JSON" "score = 1" using b by simp_all
    then show ?thesis by (simp add: rule)
  qed
  show ?thesis
    unfolding Let_def sample_def [symmetric] winner_def [symmetric] score_def [symmetric]
    using mx rule js by blast
qed

theorem detect_log_format_scored_witness:
  "fst (detect_log_format ref_lib three_objects ''app.log'') = JSON
   \<and> snd (detect_log_format ref_lib three_objects ''app.log'') \<ge> 7 / 10"
proof -
  have h1: "minimum_lines \<le> length (nonblank_lines three_objects)"
    by code_simp
  have h2: "\<forall>l\<in>set (take (min 100 (length (nonblank_lines three_objects)))
                       (nonblank_lines three_objects)). is_json_object ref_lib l"
    by code_simp
  from detect_log_format_scored [OF h1, of ref_lib "''app.log''"] h2 show ?thesis
    unfolding Let_def by blast
qed

lemma detect_three_objects: "detect_log_format ref_lib three_objects ''app.log'' = (JSON, 1)"
  by code_simp

subsection \<open>One entry per non-blank line\<close>



lemma count_nonblank_simps [simp]:
  "count_nonblank [] = 0" "count_nonblank (l # ls) = (if py_strip l \<noteq> [] then Suc (count_nonblank ls) else count_nonblank ls)"
  by (simp_all add: count_nonblank_def)

















text \<open>The entries of that content: the object, then two fallback entries.\<close>

lemma parse_mixed_json_lines:
  "map_sum id (map (\<lambda>e. (line_number e, raw_line e, is_fallback e)))
       (parse_json_logs ref_lib mixed_json_lines)
     = Inr [(1, ''{}'', False), (3, ''not json'', True), (4, ''[]'', True)]"
  by code_simp

subsection \<open>The timeline\<close>

lemma count_entry_key [simp]: "bucket_timestamp (count_entry lv b) = bucket_timestamp b"
  by (simp add: count_entry_def)

lemma count_entry_total [simp]: "total_count (count_entry lv b) = Suc (total_count b)"
  by (simp add: count_entry_def)

lemma count_entry_sum [simp]:
  "error_count (count_entry lv b) + warn_count (count_entry lv b)
     + info_count (count_entry lv b) + other_count (count_entry lv b)
   = Suc (error_count b + warn_count b + info_count b + other_count b)"
  by (simp add: count_entry_def)

lemma keys_add_to_bucket:
  "map bucket_timestamp (add_to_bucket g k lv) =
     (if k \<in> bucket_timestamp ` set g then map bucket_timestamp g else map bucket_timestamp g @ [k])"
  by (induction g) (auto simp: empty_bucket_def)

lemma sum_add_to_bucket:
  "sum_list (map total_count (add_to_bucket g k lv)) = Suc (sum_list (map total_count g))"
  by (induction g) (auto simp: empty_bucket_def)

lemma in_add_to_bucket:
  "b' \<in> set (add_to_bucket g k lv) \<Longrightarrow> distinct (map bucket_timestamp g) \<Longrightarrow>
     (b' \<in> set g \<and> bucket_timestamp b' \<noteq> k)
     \<or> (\<exists>b\<in>set g. bucket_timestamp b = k \<and> b' = count_entry lv b)
     \<or> (k \<notin> bucket_timestamp ` set g \<and> b' = count_entry lv (empty_bucket k))"
proof (induction g)
  case Nil
  then show ?case by simp
next
  case (Cons a g)
  show ?case
  proof (cases "bucket_timestamp a = k")
    case True
    with Cons.prems show ?thesis by (auto simp: image_iff)
  next
    case False
    with Cons show ?thesis by auto
  qed
qed

lemma timestamps_of_append [simp]:
  "timestamps_of (xs @ ys) = timestamps_of xs @ timestamps_of ys"
  by (simp add: timestamps_of_def)

lemma counted_step:
  assumes "counted m g seen" "timestamp e = Some t"
  shows "counted m (add_to_bucket g (bucket_key m t) (level e)) (seen @ [e])"
proof -
  let ?k = "bucket_key m t"
  let ?g = "add_to_bucket g ?k (level e)"
  from assms(1) have d: "distinct (map bucket_timestamp g)"
    and each: "\<And>b. b \<in> set g \<Longrightarrow>
        total_count b = error_count b + warn_count b + info_count b + other_count b
        \<and> total_count b = length (filter (in_bucket m (bucket_timestamp b)) seen)"
    and cover: "\<And>e' t'. e' \<in> set seen \<Longrightarrow> timestamp e' = Some t' \<Longrightarrow>
        bucket_key m t' \<in> bucket_timestamp ` set g"
    and total: "sum_list (map total_count g) = length (timestamps_of seen)"
    by (auto simp: counted_def)
  have ine: "in_bucket m k e \<longleftrightarrow> ?k = k" for k
    using assms(2) by (simp add: in_bucket_def)
  have keys: "set (map bucket_timestamp ?g) = insert ?k (bucket_timestamp ` set g)"
    by (auto simp: keys_add_to_bucket)
  have c1: "distinct (map bucket_timestamp ?g)"
    using d by (simp add: keys_add_to_bucket)
  have c2: "total_count b' = error_count b' + warn_count b' + info_count b' + other_count b'
      \<and> total_count b' = length (filter (in_bucket m (bucket_timestamp b')) (seen @ [e]))"
    if "b' \<in> set ?g" for b'
  proof -
    from in_add_to_bucket [OF that d] consider
      (old) "b' \<in> set g" "bucket_timestamp b' \<noteq> ?k"
      | (hit) b where "b \<in> set g" "bucket_timestamp b = ?k" "b' = count_entry (level e) b"
      | (new) "?k \<notin> bucket_timestamp ` set g" "b' = count_entry (level e) (empty_bucket ?k)"
      by blast
    then show ?thesis
    proof cases
      case old
      with each [of b'] show ?thesis by (auto simp: ine)
    next
      case hit
      with each [of b] show ?thesis by (simp add: ine)
    next
      case new
      have "filter (in_bucket m ?k) seen = []"
      proof (rule ccontr)
        assume "filter (in_bucket m ?k) seen \<noteq> []"
        then obtain e' where "e' \<in> set seen" "in_bucket m ?k e'"
          by (auto simp: filter_empty_conv)
        then obtain t' where "timestamp e' = Some t'" "bucket_key m t' = ?k"
          by (auto simp: in_bucket_def split: option.splits)
        with cover \<open>e' \<in> set seen\<close> new(1) show False by metis
      qed
      with new(2) show ?thesis
        by (simp add: ine) (simp add: empty_bucket_def)
    qed
  qed
  have c3: "bucket_key m t' \<in> bucket_timestamp ` set ?g"
    if "e' \<in> set (seen @ [e])" "timestamp e' = Some t'" for e' t'
  proof -
    have "bucket_key m t' \<in> insert ?k (bucket_timestamp ` set g)"
      using that cover assms(2) by auto
    then show ?thesis using keys by simp
  qed
  have c4: "sum_list (map total_count ?g) = length (timestamps_of (seen @ [e]))"
    using total assms(2) by (simp add: sum_add_to_bucket timestamps_of_def)
  show ?thesis
    unfolding counted_def using c1 c2 c3 c4 by blast
qed

lemma counted_skip:
  assumes "counted m g seen" "timestamp e = None"
  shows "counted m g (seen @ [e])"
  using assms by (auto simp: counted_def in_bucket_def timestamps_of_def)

lemma counted_group_timeline:
  "counted m g seen \<Longrightarrow> counted m (group_timeline m g es) (seen @ es)"
proof (induction es arbitrary: g seen)
  case Nil
  then show ?case by simp
next
  case (Cons e es)
  show ?case
  proof (cases "timestamp e")
    case None
    from Cons.IH [OF counted_skip [OF Cons.prems None]] None show ?thesis by simp
  next
    case (Some t)
    from Cons.IH [OF counted_step [OF Cons.prems Some]] Some show ?thesis by simp
  qed
qed

lemma counted_empty: "counted m [] []"
  by (simp add: counted_def timestamps_of_def)

lemma sum_list_insort:
  fixes h :: "'a \<Rightarrow> nat"
  shows "sum_list (map h (insort_key f x xs)) = h x + sum_list (map h xs)"
  by (induction xs) auto

lemma sum_list_sort_key:
  fixes h :: "'a \<Rightarrow> nat"
  shows "sum_list (map h (sort_key f xs)) = sum_list (map h xs)"
  by (induction xs) (simp_all add: sum_list_insort)

text \<open>
  C10. For every entry sequence and every interval token, in the records that the
  timeline returns every total is the sum of the four counters and the number of the
  entries that fall into the bucket; every timestamped entry has a bucket with its key,
  and only one, since the keys are distinct, so the totals add up to the number of
  timestamped entries; and the records are in ascending order of their ISO keys.
\<close>

theorem timeline_buckets:
  "(let bs = get_timeline_data entries interval; m = parse_interval interval in
      (\<forall>b\<in>set bs. total_count b = error_count b + warn_count b + info_count b + other_count b
          \<and> total_count b = length (filter (in_bucket m (bucket_timestamp b)) entries))
      \<and> (\<forall>e\<in>set entries. \<forall>t. timestamp e = Some t \<longrightarrow>
            (\<exists>b\<in>set bs. bucket_timestamp b = bucket_key m t))
      \<and> distinct (map bucket_timestamp bs)
      \<and> sum_list (map total_count bs) = length (timestamps_of entries)
      \<and> sorted (map bucket_timestamp bs))"
proof -
  define m where "m = parse_interval interval"
  define g where "g = group_timeline m [] entries"
  have c: "counted m g entries"
    using counted_group_timeline [OF counted_empty, of m entries] by (simp add: g_def)
  show ?thesis
  proof (cases "timestamps_of entries = []")
    case True
    then have "\<forall>e\<in>set entries. timestamp e = None" by (simp add: timestamps_of_empty)
    with True show ?thesis by (simp add: get_timeline_data_def)
  next
    case False
    then have bs: "get_timeline_data entries interval = sort_key bucket_timestamp g"
      by (simp add: get_timeline_data_def g_def m_def)
    have "distinct (map bucket_timestamp (sort_key bucket_timestamp g))"
      using c by (simp add: counted_def distinct_map)
    moreover have "sorted (map bucket_timestamp (sort_key bucket_timestamp g))"
      by simp
    moreover have "sum_list (map total_count (sort_key bucket_timestamp g))
        = length (timestamps_of entries)"
      using c by (simp add: sum_list_sort_key counted_def)
    moreover have "\<forall>b\<in>set (sort_key bucket_timestamp g).
        total_count b = error_count b + warn_count b + info_count b + other_count b
        \<and> total_count b = length (filter (in_bucket m (bucket_timestamp b)) entries)"
      using c unfolding counted_def set_sort by blast
    moreover have "\<forall>e\<in>set entries. \<forall>t. timestamp e = Some t \<longrightarrow>
        (\<exists>b\<in>set (sort_key bucket_timestamp g). bucket_timestamp b = bucket_key m t)"
      using c unfolding counted_def set_sort by (metis imageE)
    ultimately show ?thesis
      unfolding bs Let_def m_def [symmetric] by blast
  qed
qed

lemma timeline_of_sample:
  "get_timeline_data timeline_sample ''1h'' =
     [\<lparr> bucket_timestamp = ''2024-01-01T10:00:00'', error_count = 1, warn_count = 0,
          info_count = 0, other_count = 1, total_count = 2 \<rparr>,
      \<lparr> bucket_timestamp = ''2024-01-01T11:00:00'', error_count = 0, warn_count = 1,
          info_count = 0, other_count = 0, total_count = 1 \<rparr>]"
  by code_simp

theorem timeline_buckets_witness:
  "sum_list (map total_count (get_timeline_data timeline_sample ''1h'')) = 3
   \<and> length (timestamps_of timeline_sample) = 3
   \<and> sorted (map bucket_timestamp (get_timeline_data timeline_sample ''1h''))"
proof -
  have n: "length (timestamps_of timeline_sample) = 3"
    by code_simp
  from timeline_buckets [of timeline_sample "''1h''"] n show ?thesis
    unfolding Let_def by simp
qed

subsection \<open>Anomalies\<close>









lemma detect_anomalies_returns:
  "\<not> mixed (timestamps_of entries) \<Longrightarrow> \<exists>anomalies. detect_anomalies entries = Inr anomalies"
  by (simp add: detect_anomalies_def detect_time_anomalies_def dt_sorted_def Let_def)



text \<open>
  The hourly buckets are the keys of the dictionary \<open>hourly_counts\<close>; for naive
  timestamps their number is the number of distinct hours.
\<close>

lemma dt_bump_keys_naive:
  "\<not> aware k \<Longrightarrow> \<forall>x\<in>set d. \<not> aware (fst x) \<Longrightarrow>
     map fst (dt_bump d k) = (if k \<in> set (map fst d) then map fst d else map fst d @ [k])"
  by (induction d) (force simp: dt_eq_def)+

lemma hour_key_naive: "aware (hour_key t) = aware t"
  by (simp add: hour_key_def aware_def)

lemma hourly_keys_naive:
  "\<forall>t\<in>set ts. \<not> aware t \<Longrightarrow>
     distinct (map fst (foldl (\<lambda>d t. dt_bump d (hour_key t)) [] ts))
     \<and> set (map fst (foldl (\<lambda>d t. dt_bump d (hour_key t)) [] ts)) = hour_key ` set ts"
proof (induction ts rule: rev_induct)
  case Nil
  then show ?case by simp
next
  case (snoc t ts)
  let ?d = "foldl (\<lambda>d t. dt_bump d (hour_key t)) [] ts"
  from snoc have ih: "distinct (map fst ?d)" "set (map fst ?d) = hour_key ` set ts"
    by auto
  have nk: "\<not> aware (hour_key t)" using snoc.prems by (simp add: hour_key_naive)
  have nd: "\<forall>x\<in>set ?d. \<not> aware (fst x)"
  proof
    fix x assume "x \<in> set ?d"
    then have "fst x \<in> set (map fst ?d)" by simp
    then have "fst x \<in> hour_key ` set ts" using ih(2) by simp
    then show "\<not> aware (fst x)" using snoc.prems by (auto simp: hour_key_naive)
  qed
  show ?case
    using ih by (auto simp: dt_bump_keys_naive [OF nk nd])
qed

lemma hourly_buckets_naive:
  "\<forall>t\<in>set (timestamps_of entries). \<not> aware t \<Longrightarrow>
     length (hourly_counts_of entries) = card (hour_key ` set (timestamps_of entries))"
proof -
  assume a: "\<forall>t\<in>set (timestamps_of entries). \<not> aware t"
  let ?ks = "map fst (hourly_counts_of entries)"
  from hourly_keys_naive [OF a] have "distinct ?ks" "set ?ks = hour_key ` set (timestamps_of entries)"
    by (simp_all add: hourly_counts_of_def)
  then have "card (hour_key ` set (timestamps_of entries)) = length ?ks"
    using distinct_card by metis
  then show ?thesis by simp
qed

subsection \<open>A subject without the required characters does not match\<close>

lemma in_chars_between: "a \<le> c \<Longrightarrow> c \<le> b \<Longrightarrow> c \<in> set (chars_between a b)"
proof -
  assume "a \<le> c" "c \<le> b"
  then have "(of_char a :: nat) \<le> of_char c" "(of_char c :: nat) \<le> of_char b"
    by (simp_all add: less_eq_char_def)
  then have "(of_char c :: nat) \<in> set [of_char a ..< Suc (of_char b)]"
    unfolding set_upt atLeastLessThan_iff less_Suc_eq_le by (rule conjI)
  then have "char_of (of_char c :: nat) \<in> set (chars_between a b)"
    unfolding chars_between_def by (metis (no_types) image_eqI set_map)
  then show ?thesis by simp
qed

lemma item_withinD: "item_within P i \<Longrightarrow> citem_mem i c \<Longrightarrow> P c"
  by (cases i) (auto simp: list_all_iff is_digit_def dest: in_chars_between)

lemma cset_withinD: "cset_within P cs \<Longrightarrow> cset_mem cs c \<Longrightarrow> P c"
  by (cases cs) (auto simp: list_all_iff list_ex_iff dest: item_withinD)

lemma rx_match_requires:
  "\<forall>x\<in>set s. \<not> P x \<Longrightarrow>
   requires P r \<or> (\<forall>c' p' s'. (\<forall>x\<in>set s'. \<not> P x) \<longrightarrow> k c' p' s' = None) \<Longrightarrow>
   rx_match r k c p s = None"
proof (induction r k c p s rule: rx_match.induct)
  case (2 cs k c p x xs)
  then show ?case by (auto dest: cset_withinD)
next
  case (4 a b k c p s)
  have kb: "\<forall>c' p' s'. (\<forall>x\<in>set s'. \<not> P x) \<longrightarrow> rx_match b k c' p' s' = None"
    if "requires P b \<or> (\<forall>c' p' s'. (\<forall>x\<in>set s'. \<not> P x) \<longrightarrow> k c' p' s' = None)"
    using that "4.IH"(1) by blast
  from "4.prems" show ?case
    using "4.IH"(2) kb by auto
next
  case (5 a b k c p s)
  then show ?case by auto
next
  case (7 g cs k c p x xs)
  then show ?case by (auto split: option.splits)
next
  case (8 n r k c p s)
  then show ?case by auto
qed auto

lemma match_here_requires:
  "\<forall>x\<in>set s. \<not> P x \<Longrightarrow> requires P r \<Longrightarrow> match_here r p s = None"
  unfolding match_here_def by (rule rx_match_requires) auto

lemma sub_from_requires:
  "\<forall>x\<in>set s. \<not> P x \<Longrightarrow> requires P r \<Longrightarrow> sub_from r repl p s = s"
  by (induction s arbitrary: p) (simp_all add: match_here_requires)

lemma re_sub_requires:
  "\<forall>x\<in>set s. \<not> P x \<Longrightarrow> requires P r \<Longrightarrow> re_sub r repl s = s"
  by (simp add: re_sub_def sub_from_requires)

subsection \<open>The timestamp extractor\<close>

lemma digit_not_space: "is_digit c \<Longrightarrow> \<not> is_space c"
  by (auto simp: is_digit_def is_space_def less_eq_char_def)

lemma py_strip_digits: "list_all is_digit s \<Longrightarrow> py_strip s = s"
proof (cases s rule: rev_cases)
  case Nil
  then show ?thesis by (simp add: py_strip_def)
next
  case (snoc ys y)
  assume d: "list_all is_digit s"
  have 1: "dropWhile is_space s = s"
    using d by (cases s) (auto dest: digit_not_space)
  have 2: "dropWhile is_space (rev s) = rev s"
    using d snoc by (auto dest: digit_not_space)
  show ?thesis by (simp add: py_strip_def 1 2)
qed

lemma digit_not_upper: "is_digit c \<Longrightarrow> \<not> is_upper c"
  by (auto simp: is_digit_def is_upper_def less_eq_char_def)

lemma py_lower_digits: "list_all is_digit s \<Longrightarrow> py_lower s = s"
  by (induction s) (auto simp: py_lower_def lower_char_def dest: digit_not_upper)

lemma dp_tail_digits: "list_all is_digit s \<Longrightarrow> dp_tail s = (s, [])"
  by (induction s rule: dp_tail.induct) auto

lemma digitpart_digits: "pure_digits s \<Longrightarrow> digitpart s = Some (s, [])"
  by (cases s) (auto simp: pure_digits_def digitpart_def dp_tail_digits)

lemma py_float_digits:
  assumes "pure_digits s"
  shows "py_float s =
    Some (if (2::rat) ^ 1024 \<le> of_int (digits_value s) then NonFinite
          else Finite (of_int (digits_value s)))"
proof -
  from assms obtain c cs where s: "s = c # cs" and c: "is_digit c" and d: "list_all is_digit s"
    by (cases s) (auto simp: pure_digits_def)
  have st: "py_strip s = s" using d by (rule py_strip_digits)
  have sg: "take 1 s \<noteq> ''-''" "take 1 s \<noteq> ''+''"
    using s c by (auto simp: is_digit_def less_eq_char_def)
  have lw: "py_lower s \<notin> {''inf'', ''infinity'', ''nan''}"
    unfolding py_lower_digits [OF d] using s c by (auto simp: is_digit_def less_eq_char_def)
  have pn: "parse_number s = Some (of_int (digits_value s), [])"
    by (simp add: parse_number_def digitpart_digits [OF assms] decimal_value_def)
  show ?thesis
    using sg lw by (simp add: py_float_def st pn parse_exponent_def scale10_def Let_def)
qed

lemma py_int_digits: "pure_digits s \<Longrightarrow> py_int s = Some (digits_value s)"
  by (simp add: py_int_def pure_digits_def py_strip_digits)

lemma py_isdigit_digits: "pure_digits s \<Longrightarrow> py_isdigit s"
  by (auto simp: py_isdigit_def pure_digits_def is_pydigit_def list_all_iff)

lemma py_int_float: "py_int s = Some n \<Longrightarrow> py_float s \<noteq> None"
proof -
  assume "py_int s = Some n"
  then have p: "pure_digits (py_strip s)"
    by (auto simp: py_int_def pure_digits_def Let_def split: if_splits)
  have "py_float s = py_float (py_strip s)"
    using p by (simp add: py_float_def py_strip_digits pure_digits_def)
  then show ?thesis using py_float_digits [OF p] by simp
qed

text \<open>Every \<open>strptime\<close> format of the extractor needs a character that is not a digit.\<close>

lemma formats_require_nondigit:
  "list_all (\<lambda>fmt. requires (\<lambda>c. \<not> is_digit c) (format_regex fmt)) timestamp_formats"
  by code_simp

lemma strptime_digits:
  "list_all is_digit s \<Longrightarrow> requires (\<lambda>c. \<not> is_digit c) (format_regex fmt) \<Longrightarrow> strptime s fmt = None"
  using match_here_requires [of s "\<lambda>c. \<not> is_digit c" "format_regex fmt" None]
  by (simp add: strptime_def re_match_def list_all_iff)

lemma try_formats_digits:
  "list_all is_digit s \<Longrightarrow> list_all (\<lambda>fmt. requires (\<lambda>c. \<not> is_digit c) (format_regex fmt)) fmts \<Longrightarrow>
   try_formats fmts s = None"
  by (induction fmts) (simp_all add: strptime_digits)

lemma extract_timestamp_digits:
  assumes "pure_digits s" "digits_value s \<le> 10 ^ 13"
  shows "extract_timestamp L (Some s) =
    (case fromtimestamp L (of_int (digits_value s)) of
       Inr t \<Rightarrow> Inr (Some t)
     | Inl e \<Rightarrow>
         if e = ValueError \<or> e = TypeError \<or> e = OverflowError then
           caught (if digits_value s > 10 ^ 10
                   then fromtimestamp L (of_int (digits_value s) / 1000)
                   else fromtimestamp L (of_int (digits_value s)))
         else Inl e)"
proof -
  have d: "list_all is_digit s" and ne: "s \<noteq> []" using assms(1) by (simp_all add: pure_digits_def)
  have st: "py_strip s = s" using d by (rule py_strip_digits)
  have tf: "try_formats timestamp_formats s = None"
    using d formats_require_nondigit by (rule try_formats_digits)
  have "(of_int (digits_value s) :: rat) \<le> of_int (10 ^ 13)"
    using assms(2) by (simp only: of_int_le_iff)
  also have "\<dots> < 2 ^ 1024" by simp
  finally have fl: "py_float s = Some (Finite (of_int (digits_value s)))"
    using py_float_digits [OF assms(1)] by simp
  have gt: "\<not> digits_value s > 10 ^ 13" using assms(2) by simp
  show ?thesis
    using ne gt
    by (simp add: extract_timestamp_def st tf unix_seconds_def fl digit_fallback_def
        py_isdigit_digits [OF assms(1)] py_int_digits [OF assms(1)] caught_def
        split: sum.splits)
qed

lemma extract_timestamp_no_format:
  assumes "no_format s"
  shows "extract_timestamp L (Some s) = Inr None"
proof -
  have tf: "try_formats timestamp_formats (py_strip s) = None"
    and fl: "py_float (py_strip s) = None"
    using assms by (simp_all add: no_format_def)
  have "py_int (py_strip s) = None"
    using py_int_float [of "py_strip s"] fl by (cases "py_int (py_strip s)") auto
  then show ?thesis
    by (simp add: extract_timestamp_def tf unix_seconds_def fl digit_fallback_def Let_def)
qed

lemma extract_timestamp_iso:
  "extract_timestamp L (Some ''2024-08-24T15:30:00Z'') = Inr (Some iso_example)"
  by code_simp

text \<open>
  C4, as the code has it. The extractor maps \<open>2024-08-24T15:30:00Z\<close> to that instant and
  \<open>1700000000\<close> to what \<open>fromtimestamp\<close> gives for 1700000000 seconds. A text of decimal
  digits of value at most \<open>1e13\<close> is read as Unix seconds whenever \<open>fromtimestamp\<close>
  accepts the value as seconds, whatever its magnitude; when \<open>fromtimestamp\<close> rejects the
  seconds with \<open>ValueError\<close> or \<open>OverflowError\<close> and the value is above \<open>1e10\<close>, it is read
  as Unix milliseconds. A text that no \<open>strptime\<close> format parses and \<open>float\<close> rejects
  gives absent, and nothing is raised.
\<close>

theorem extract_timestamp_reading:
  "extract_timestamp L (Some ''2024-08-24T15:30:00Z'') = Inr (Some iso_example)
   \<and> (\<forall>t. fromtimestamp L 1700000000 = Inr t \<longrightarrow>
          extract_timestamp L (Some ''1700000000'') = Inr (Some t))
   \<and> (\<forall>s t. pure_digits s \<and> digits_value s \<le> 10 ^ 13
             \<and> fromtimestamp L (of_int (digits_value s)) = Inr t \<longrightarrow>
          extract_timestamp L (Some s) = Inr (Some t))
   \<and> (\<forall>s e. pure_digits s \<and> 10 ^ 10 < digits_value s \<and> digits_value s \<le> 10 ^ 13
             \<and> fromtimestamp L (of_int (digits_value s)) = Inl e
             \<and> (e = ValueError \<or> e = OverflowError) \<longrightarrow>
          extract_timestamp L (Some s) = caught (fromtimestamp L (of_int (digits_value s) / 1000)))
   \<and> (\<forall>s. no_format s \<longrightarrow> extract_timestamp L (Some s) = Inr None)"
proof -
  have p: "pure_digits ''1700000000''" and v: "digits_value ''1700000000'' = 1700000000"
    by code_simp+
  have b: "digits_value ''1700000000'' \<le> 10 ^ 13" unfolding v by simp
  have a: "extract_timestamp L (Some ''1700000000'') = Inr (Some t)"
    if "fromtimestamp L 1700000000 = Inr t" for t
    using extract_timestamp_digits [OF p b, of L] that unfolding v by simp
  have c: "extract_timestamp L (Some s) = Inr (Some t)"
    if "pure_digits s" "digits_value s \<le> 10 ^ 13"
       "fromtimestamp L (of_int (digits_value s)) = Inr t" for s t
    using extract_timestamp_digits [OF that(1,2), of L] that(3) by simp
  have d: "extract_timestamp L (Some s) = caught (fromtimestamp L (of_int (digits_value s) / 1000))"
    if "pure_digits s" "10 ^ 10 < digits_value s" "digits_value s \<le> 10 ^ 13"
       "fromtimestamp L (of_int (digits_value s)) = Inl e" "e = ValueError \<or> e = OverflowError"
    for s e
    using extract_timestamp_digits [OF that(1,3), of L] that(2,4,5) by auto
  show ?thesis
    using extract_timestamp_iso a c d extract_timestamp_no_format by blast
qed

theorem extract_timestamp_reading_witness:
  "extract_timestamp ref_lib (Some ''1700000000'') =
     Inr (Some \<lparr> dt_year = 2023, dt_month = 11, dt_day = 14, dt_hour = 22, dt_minute = 13,
                 dt_second = 20, dt_micro = 0, dt_offset = None \<rparr>)
   \<and> fromtimestamp ref_lib (of_int (digits_value ''1700000000000'')) = Inl ValueError
   \<and> extract_timestamp ref_lib (Some ''1700000000000'') =
     Inr (Some \<lparr> dt_year = 2023, dt_month = 11, dt_day = 14, dt_hour = 22, dt_minute = 13,
                 dt_second = 20, dt_micro = 0, dt_offset = None \<rparr>)
   \<and> no_format ''not a timestamp''
   \<and> extract_timestamp ref_lib (Some ''not a timestamp'') = Inr None"
proof -
  have h1: "fromtimestamp ref_lib 1700000000 =
      Inr \<lparr> dt_year = 2023, dt_month = 11, dt_day = 14, dt_hour = 22, dt_minute = 13,
            dt_second = 20, dt_micro = 0, dt_offset = None \<rparr>"
    by code_simp
  have h2: "pure_digits ''1700000000000'' \<and> 10 ^ 10 < digits_value ''1700000000000''
      \<and> digits_value ''1700000000000'' \<le> 10 ^ 13
      \<and> fromtimestamp ref_lib (of_int (digits_value ''1700000000000'')) = Inl ValueError
      \<and> (ValueError = ValueError \<or> ValueError = OverflowError)"
    by code_simp
  have h3: "caught (fromtimestamp ref_lib (of_int (digits_value ''1700000000000'') / 1000)) =
      Inr (Some \<lparr> dt_year = 2023, dt_month = 11, dt_day = 14, dt_hour = 22, dt_minute = 13,
                  dt_second = 20, dt_micro = 0, dt_offset = None \<rparr>)"
    by code_simp
  have h4: "no_format ''not a timestamp''"
    by code_simp
  from extract_timestamp_reading [of ref_lib] h1 h2 h3 h4 show ?thesis
    by metis
qed

text \<open>
  The reading by magnitude alone fails at \<open>20000000000\<close>: the value is above \<open>1e10\<close>, so
  that reading is 20000000 seconds (in 1970), while the extractor reads 20000000000
  seconds (in 2603), because \<open>fromtimestamp\<close> accepts them.
\<close>

theorem extract_timestamp_threshold_counterexample:
  "threshold_reading ref_lib (digits_value ''20000000000'') =
     Inr \<lparr> dt_year = 1970, dt_month = 8, dt_day = 20, dt_hour = 11, dt_minute = 33,
           dt_second = 20, dt_micro = 0, dt_offset = None \<rparr>
   \<and> extract_timestamp ref_lib (Some ''20000000000'') =
     Inr (Some \<lparr> dt_year = 2603, dt_month = 10, dt_day = 11, dt_hour = 11, dt_minute = 33,
                 dt_second = 20, dt_micro = 0, dt_offset = None \<rparr>)"
  by code_simp

text \<open>
  The branch for microseconds is not reachable: its test comes after the test for more
  than \<open>1e10\<close>. A microsecond count of today is read as milliseconds, which
  \<open>fromtimestamp\<close> rejects, and the extractor gives absent.
\<close>

lemma extract_timestamp_microseconds:
  "extract_timestamp ref_lib (Some ''1700000000000000'') = Inr None"
  by code_simp

text \<open>
  An error of \<open>fromtimestamp\<close> other than those the loop catches leaves the extractor: for
  a count of seconds beyond what the C library can break down, the platform's \<open>OSError\<close>.
\<close>

lemma extract_timestamp_raises: "extract_timestamp ref_lib (Some ''100000000000000000'') = Inl OSError"
  by code_simp

end
